theory Spec2Isabelle
  imports Main "HOL-Library.Word" "HOL-Library.Sublist"
begin

section \<open>JavaScript strings\<close>

text \<open>
  A JavaScript string is a sequence of UTF-16 code units; \<open>length\<close>, \<open>trim\<close>,
  \<open>replaceAll\<close> and a regular expression without the \<open>u\<close> flag all work on code
  units. A code unit is a 16-bit word, a string a list of them. \<open>lit\<close> embeds an
  ASCII literal of the source.
\<close>

type_synonym jschar = "16 word"
type_synonym jsstring = "jschar list"

definition cu :: "char \<Rightarrow> jschar" where
  "cu c = of_char c"

definition lit :: "string \<Rightarrow> jsstring" where
  "lit s = map cu s"

text \<open>
  The code points that \<open>String.prototype.trim\<close> strips and that \<open>\s\<close> matches
  (ECMAScript WhiteSpace and LineTerminator): TAB, LF, VT, FF, CR, SP, NBSP, U+1680,
  U+2000..U+200A, U+2028, U+2029, U+202F, U+205F, U+3000 and U+FEFF. All of them are
  single code units.
\<close>

definition isSpace :: "jschar \<Rightarrow> bool" where
  "isSpace c \<longleftrightarrow>
     c \<in> {0x09, 0x0A, 0x0B, 0x0C, 0x0D, 0x20, 0xA0, 0x1680,
           0x2028, 0x2029, 0x202F, 0x205F, 0x3000, 0xFEFF}
     \<or> (0x2000 \<le> c \<and> c \<le> 0x200A)"

text \<open>\<open>s.trim()\<close>: white space is removed from both ends.\<close>

definition trim :: "jsstring \<Rightarrow> jsstring" where
  "trim s = rev (dropWhile isSpace (rev (dropWhile isSpace s)))"

text \<open>
  \<open>s.replaceAll(pat, rep)\<close> for a search string of one code unit and a replacement
  without \<open>$\<close> (the only way \<open>escapeHtml\<close> calls it): every occurrence of the unit
  is replaced, left to right, and the replacement is not scanned again.
\<close>

definition replaceAll :: "jschar \<Rightarrow> jsstring \<Rightarrow> jsstring \<Rightarrow> jsstring" where
  "replaceAll pat rep s = concat (map (\<lambda>c. if c = pat then rep else [c]) s)"

text \<open>
  \<open>s.replace(/[...]+/g, rep)\<close> for a character class \<open>P\<close>: the scan goes left to
  right; at a unit of the class the greedy \<open>+\<close> takes the whole run of class units,
  the run is replaced by one \<open>rep\<close>, and the scan goes on behind the run.
\<close>

function replace_runs :: "(jschar \<Rightarrow> bool) \<Rightarrow> jsstring \<Rightarrow> jsstring \<Rightarrow> jsstring" where
  "replace_runs P rep [] = []"
| "replace_runs P rep (c # cs) =
     (if P c then rep @ replace_runs P rep (dropWhile P cs)
      else c # replace_runs P rep cs)"
  by pat_completeness auto
termination
  by (relation "measure (\<lambda>(P, rep, s). length s)")
     (auto simp: less_Suc_eq_le length_dropWhile_le)

text \<open>\<open>a || b\<close> on strings: the empty string is the only falsy string.\<close>

definition or_else :: "jsstring \<Rightarrow> jsstring \<Rightarrow> jsstring" where
  "or_else a b = (if a = [] then b else a)"


section \<open>App.tsx: escaping and the export\<close>

text \<open>\<open>escapeHtml\<close>: five \<open>replaceAll\<close> calls in the order of the source.\<close>

definition escapeHtml :: "jsstring \<Rightarrow> jsstring" where
  \<open>escapeHtml s =
     replaceAll (cu (CHR 0x27)) (lit ''&#39;'')
       (replaceAll (cu (CHR ''"'')) (lit ''&quot;'')
         (replaceAll (cu (CHR ''>'')) (lit ''&gt;'')
           (replaceAll (cu (CHR ''<'')) (lit ''&lt;'')
             (replaceAll (cu (CHR ''&'')) (lit ''&amp;'') s))))\<close>

text \<open>The same substitution done in one pass, one code unit at a time.\<close>

definition escape_unit :: "jschar \<Rightarrow> jsstring" where
  \<open>escape_unit c =
     (if c = cu (CHR ''&'') then lit ''&amp;''
      else if c = cu (CHR ''<'') then lit ''&lt;''
      else if c = cu (CHR ''>'') then lit ''&gt;''
      else if c = cu (CHR ''"'') then lit ''&quot;''
      else if c = cu (CHR 0x27) then lit ''&#39;''
      else [c])\<close>

record headSettings =
  pageTitle :: jsstring
  headHtml :: jsstring
  exportBaseName :: jsstring

text \<open>The class of the first regular expression of the export: \<open>[\\/:*?"<>|]\<close>.\<close>

definition forbidden :: "jschar \<Rightarrow> bool" where
  \<open>forbidden c \<longleftrightarrow>
     c \<in> {cu (CHR 0x5C), cu (CHR ''/''), cu (CHR '':''), cu (CHR ''*''), cu (CHR ''?''),
           cu (CHR ''"''), cu (CHR ''<''), cu (CHR ''>''), cu (CHR ''|'')}\<close>

text \<open>
  The local constants of \<open>exportProjectFiles\<close>: \<open>base\<close>, \<open>pageTitle\<close> (before
  escaping) and \<open>headHtml\<close>.
\<close>

definition export_base :: "jsstring \<Rightarrow> jsstring" where
  "export_base name =
     replace_runs isSpace (lit ''-'')
       (replace_runs forbidden (lit ''-'')
         (trim (or_else name (lit ''vite-html-editor-export''))))"

definition export_pageTitle :: "jsstring \<Rightarrow> jsstring" where
  "export_pageTitle title = trim (or_else title (lit ''Vite HTML Editor Export''))"

definition export_headHtml :: "jsstring \<Rightarrow> jsstring" where
  "export_headHtml h = or_else h []"

text \<open>The template literal \<open>htmlDoc\<close>, line by line.\<close>

definition htmlDoc :: "jsstring \<Rightarrow> jsstring \<Rightarrow> jsstring \<Rightarrow> jsstring \<Rightarrow> jsstring" where
  \<open>htmlDoc pageTitle' headHtml' base html =
     lit ''<!doctype html>\<newline>'' @
     lit ''<html lang="en">\<newline>'' @
     lit ''<head>\<newline>'' @
     lit ''  <meta charset="utf-8" />\<newline>'' @
     lit ''  <meta name="viewport" content="width=device-width,initial-scale=1" />\<newline>'' @
     lit ''  <title>'' @ escapeHtml pageTitle' @ lit ''</title>\<newline>'' @
     headHtml' @ lit ''\<newline>'' @
     lit ''  <link rel="stylesheet" href="./'' @ base @ lit ''.css" />\<newline>'' @
     lit ''</head>\<newline>'' @
     lit ''<body>\<newline>'' @
     html @ lit ''\<newline>'' @
     lit ''<script src="./'' @ base @ lit ''.js"></script>\<newline>'' @
     lit ''</body>\<newline>'' @
     lit ''</html>''\<close>

text \<open>
  The rule the way the specification words it, for comparison with \<open>export_base\<close>:
  trim, every listed character replaced by \<open>-\<close> (one for one), then every run of
  white space collapsed to one \<open>-\<close>.
\<close>

definition sanitize_spec :: "jsstring \<Rightarrow> jsstring" where
  "sanitize_spec s =
     replace_runs isSpace (lit ''-'')
       (map (\<lambda>c. if forbidden c then cu (CHR ''-'') else c) (trim s))"

fun no_adjacent :: "(jschar \<Rightarrow> bool) \<Rightarrow> jsstring \<Rightarrow> bool" where
  "no_adjacent P (x # y # zs) = ((if P x then \<not> P y else True) \<and> no_adjacent P (y # zs))"
| "no_adjacent P zs = True"


section \<open>The Document Engine\<close>

text \<open>
  The engine (GrapesJS) is a third-party library; the repository only calls it. It is a
  parameter of the model: a table of the five methods the code calls, over an engine
  state \<open>'e\<close> and node references \<open>'n\<close>. A call that the source wraps in
  \<open>try\<close> may throw: the two getters return the exception or the text;
  \<open>sel.components(html)\<close> returns the exception, if any, together with the state the
  engine is in when the call ends, whatever it did before it threw.
\<close>

text \<open>
  A thrown value \<open>e\<close>: its \<open>message\<close> property when that is neither \<open>null\<close>
  nor \<open>undefined\<close>, and \<open>String(e)\<close>.
\<close>

datatype exn = Exn (exn_message: "jsstring option") (exn_string: jsstring)

text \<open>\<open>String(e?.message ?? e)\<close>\<close>

definition cause :: "exn \<Rightarrow> jsstring" where
  "cause e = (case exn_message e of Some m \<Rightarrow> m | None \<Rightarrow> exn_string e)"

record ('e, 'n) engine =
  getHtml :: "'e \<Rightarrow> exn + jsstring"
  getCss :: "'e \<Rightarrow> exn + jsstring"
  getSelected :: "'e \<Rightarrow> 'n option"
  setStyle :: "jsstring \<Rightarrow> 'e \<Rightarrow> 'e"
  components :: "'n \<Rightarrow> jsstring \<Rightarrow> 'e \<Rightarrow> exn option \<times> 'e"


section \<open>editor/sync.ts\<close>

definition getEditorHtml :: "('e, 'n) engine \<Rightarrow> 'e \<Rightarrow> exn + jsstring" where
  "getEditorHtml eng e = getHtml eng e"

definition getEditorCss :: "('e, 'n) engine \<Rightarrow> 'e \<Rightarrow> exn + jsstring" where
  "getEditorCss eng e = getCss eng e"

definition applyGlobalCss :: "('e, 'n) engine \<Rightarrow> 'e \<Rightarrow> jsstring \<Rightarrow> 'e" where
  "applyGlobalCss eng e css = setStyle eng css e"

record apply_result =
  ok :: bool
  message :: jsstring

text \<open>The result of the call and the engine state after it.\<close>

definition applyHtmlToSelected ::
  "('e, 'n) engine \<Rightarrow> 'e \<Rightarrow> jsstring \<Rightarrow> apply_result \<times> 'e" where
  "applyHtmlToSelected eng e html =
     (case getSelected eng e of
        None \<Rightarrow>
          (\<lparr>ok = False,
            message = lit ''No component selected. Click an element on the canvas, then apply HTML.''\<rparr>,
           e)
      | Some sel \<Rightarrow>
          (case components eng sel html e of
             (None, e') \<Rightarrow>
               (\<lparr>ok = True, message = lit ''Applied HTML to the selected component.''\<rparr>, e')
           | (Some x, e') \<Rightarrow>
               (\<lparr>ok = False, message = lit ''Failed to apply HTML: '' @ cause x\<rparr>, e')))"


section \<open>code/CodeTabs.tsx\<close>

datatype tab = Html | Css | Js

text \<open>The component's state: the four \<open>useState\<close> cells and \<open>rafRef.current\<close>.\<close>

record codetabs =
  tab :: tab
  htmlValue :: jsstring
  cssValue :: jsstring
  status :: jsstring
  rafRef :: "nat option"

text \<open>
  \<open>sync\<close>: both texts are read first, HTML before CSS, and stored only when both
  reads returned; a throw sets the status and stores nothing. (\<open>?? ""\<close> does nothing on
  a string.)
\<close>

definition sync :: "('e, 'n) engine \<Rightarrow> 'e \<Rightarrow> codetabs \<Rightarrow> codetabs" where
  "sync eng e st =
     (case getEditorHtml eng e of
        Inl x \<Rightarrow> st\<lparr>status := lit ''Sync failed: '' @ cause x\<rparr>
      | Inr h \<Rightarrow>
          (case getEditorCss eng e of
             Inl x \<Rightarrow> st\<lparr>status := lit ''Sync failed: '' @ cause x\<rparr>
           | Inr c \<Rightarrow> st\<lparr>htmlValue := h, cssValue := c\<rparr>))"

text \<open>
  The component together with what it runs in: the engine's state and the browser's
  list of animation frame callbacks. \<open>requestAnimationFrame\<close> increments the
  callback identifier, queues the callback under it and returns it (HTML Standard), so
  a handle is never \<open>0\<close>. Every callback this component queues is the same closure,
  so the list holds the handles only.
\<close>

record 'e world =
  ui :: codetabs
  doc :: 'e
  rafCounter :: nat
  rafCallbacks :: "nat list"

definition requestAnimationFrame :: "'e world \<Rightarrow> nat \<times> 'e world" where
  "requestAnimationFrame w =
     (let h = Suc (rafCounter w)
      in (h, w\<lparr>rafCounter := h, rafCallbacks := rafCallbacks w @ [h]\<rparr>))"

text \<open>\<open>if (rafRef.current)\<close>: \<open>null\<close> and \<open>0\<close> are falsy.\<close>

definition truthy :: "nat option \<Rightarrow> bool" where
  "truthy r = (case r of None \<Rightarrow> False | Some h \<Rightarrow> h \<noteq> 0)"

definition scheduleSync :: "'e world \<Rightarrow> 'e world" where
  "scheduleSync w =
     (if truthy (rafRef (ui w)) then w
      else (case requestAnimationFrame w of
              (h, w') \<Rightarrow> w'\<lparr>ui := (ui w')\<lparr>rafRef := Some h\<rparr>\<rparr>))"

text \<open>The queued closure: \<open>rafRef.current = null; sync()\<close>.\<close>

definition rafCallback :: "('e, 'n) engine \<Rightarrow> 'e world \<Rightarrow> 'e world" where
  "rafCallback eng w = w\<lparr>ui := sync eng (doc w) ((ui w)\<lparr>rafRef := None\<rparr>)\<rparr>"

text \<open>A rendering frame runs the queued callbacks, in order, and empties the list.\<close>

definition runFrame :: "('e, 'n) engine \<Rightarrow> 'e world \<Rightarrow> 'e world" where
  "runFrame eng w =
     fold (\<lambda>h. rafCallback eng) (rafCallbacks w) (w\<lparr>rafCallbacks := []\<rparr>)"

text \<open>
  A change event: the engine has moved to the state \<open>e\<close> and calls the subscribed
  handler, \<open>scheduleSync\<close>. \<open>fire\<close> delivers a sequence of events with no frame
  in between.
\<close>

definition changeEvent :: "'e \<Rightarrow> 'e world \<Rightarrow> 'e world" where
  "changeEvent e w = scheduleSync (w\<lparr>doc := e\<rparr>)"

definition fire :: "'e list \<Rightarrow> 'e world \<Rightarrow> 'e world" where
  "fire es w = fold changeEvent es w"

text \<open>
  \<open>applyEdits\<close>, with the props \<open>editor\<close> (\<open>None\<close> for \<open>null\<close>) and
  \<open>advancedMode\<close>: the component's state and the editor after the call.
\<close>

definition applyEdits ::
  "('e, 'n) engine \<Rightarrow> 'e option \<Rightarrow> bool \<Rightarrow> codetabs \<Rightarrow> codetabs \<times> 'e option" where
  "applyEdits eng editor advancedMode st =
     (case editor of
        None \<Rightarrow> (st, None)
      | Some e \<Rightarrow>
          if \<not> advancedMode
          then (st\<lparr>status := lit ''Enable Advanced Editing Mode to apply changes.''\<rparr>, Some e)
          else if tab st = Css
          then (st\<lparr>status := lit ''Applied CSS globally.''\<rparr>,
                Some (applyGlobalCss eng e (cssValue st)))
          else if tab st = Html
          then (case applyHtmlToSelected eng e (htmlValue st) of
                  (res, e') \<Rightarrow> (st\<lparr>status := message res\<rparr>, Some e'))
          else (st\<lparr>status := lit ''JS saved for export.''\<rparr>, Some e))"


section \<open>App.tsx: the export and the persisted settings\<close>

text \<open>One call of \<open>downloadFile(filename, content, mime)\<close>.\<close>

record download =
  filename :: jsstring
  content :: jsstring
  mime :: jsstring

text \<open>
  \<open>exportProjectFiles\<close>: the downloads it triggers, in order; none without an
  editor. The getters are not wrapped in \<open>try\<close> here, so their exception leaves
  the function.
\<close>

definition exportProjectFiles ::
  "('e, 'n) engine \<Rightarrow> 'e option \<Rightarrow> jsstring \<Rightarrow> headSettings \<Rightarrow> exn + download list" where
  "exportProjectFiles eng editor jsValue hs =
     (case editor of
        None \<Rightarrow> Inr []
      | Some e \<Rightarrow>
          (case getEditorHtml eng e of
             Inl x \<Rightarrow> Inl x
           | Inr html \<Rightarrow>
               (case getEditorCss eng e of
                  Inl x \<Rightarrow> Inl x
                | Inr css \<Rightarrow>
                    (let js = jsValue;
                         base = export_base (exportBaseName hs);
                         pageTitle' = export_pageTitle (pageTitle hs);
                         headHtml' = export_headHtml (headHtml hs);
                         htmlDoc' = htmlDoc pageTitle' headHtml' base html
                     in Inr [\<lparr>filename = base @ lit ''.html'', content = htmlDoc',
                               mime = lit ''text/html;charset=utf-8''\<rparr>,
                             \<lparr>filename = base @ lit ''.css'', content = css,
                               mime = lit ''text/css;charset=utf-8''\<rparr>,
                             \<lparr>filename = base @ lit ''.js'', content = js,
                               mime = lit ''text/javascript;charset=utf-8''\<rparr>]))))"

text \<open>\<open>localStorage.getItem\<close>: the stored string, or \<open>None\<close> for \<open>null\<close>.\<close>

type_synonym storage = "jsstring \<Rightarrow> jsstring option"

definition LS_THEME_KEY :: jsstring where
  "LS_THEME_KEY = lit ''vite-html-editor:theme''"

definition LS_HEAD_KEY :: jsstring where
  "LS_HEAD_KEY = lit ''vite-html-editor:headSettings''"

definition LS_CUSTOM_PALETTE_KEY :: jsstring where
  "LS_CUSTOM_PALETTE_KEY = lit ''vite-html-editor:customPalette''"

definition LS_CUSTOM_PALETTE_ENABLED_KEY :: jsstring where
  "LS_CUSTOM_PALETTE_ENABLED_KEY = lit ''vite-html-editor:customPaletteEnabled''"

text \<open>
  A value that \<open>JSON.parse\<close> returns. A number is a double: a finite one is
  \<open>m * 2 ^ e\<close> for integers \<open>m\<close> and \<open>e\<close>, and a literal beyond the range
  gives an infinity (\<open>True\<close> for the negative one). An object is the list of its
  own properties.
\<close>

datatype json =
    JNull
  | JBool bool
  | JNum int int
  | JInfinity bool
  | JStr jsstring
  | JArr "json list"
  | JObj "(jsstring \<times> json) list"

text \<open>\<open>if (v)\<close> on such a value.\<close>

fun truthy_json :: "json \<Rightarrow> bool" where
  "truthy_json JNull = False"
| "truthy_json (JBool b) = b"
| "truthy_json (JNum m e) = (m \<noteq> 0)"
| "truthy_json (JInfinity n) = True"
| "truthy_json (JStr s) = (s \<noteq> [])"
| "truthy_json (JArr xs) = True"
| "truthy_json (JObj kvs) = True"

text \<open>
  \<open>safeJsonParse\<close>. \<open>JSON.parse\<close> is the parameter \<open>parse\<close>: \<open>None\<close> when
  it throws, the parsed value otherwise. The cast \<open>as T\<close> checks nothing, so the
  result is a JSON value of any shape.
\<close>

definition safeJsonParse :: "(jsstring \<Rightarrow> json option) \<Rightarrow> jsstring option \<Rightarrow> json \<Rightarrow> json" where
  "safeJsonParse parse raw fallback =
     (case raw of
        None \<Rightarrow> fallback
      | Some r \<Rightarrow>
          if r = [] then fallback
          else (case parse r of Some v \<Rightarrow> v | None \<Rightarrow> fallback))"

text \<open>The two object literals that \<open>App\<close> passes as fallbacks.\<close>

definition default_headSettings :: json where
  "default_headSettings =
     JObj [(lit ''pageTitle'', JStr (lit ''Vite HTML Editor Export'')),
           (lit ''headHtml'', JStr []),
           (lit ''exportBaseName'', JStr (lit ''vite-html-editor-export''))]"

definition default_customPalette :: json where
  "default_customPalette =
     JObj [(lit ''accent'', JStr []), (lit ''bg'', JStr []), (lit ''panel'', JStr []),
           (lit ''panel2'', JStr []), (lit ''border'', JStr []), (lit ''text'', JStr []),
           (lit ''muted'', JStr [])]"

text \<open>
  The four \<open>useState\<close> initialisers of \<open>App\<close>. Each gives its value together
  with the keys it passes to \<open>localStorage.getItem\<close>, in order. The theme is a
  string at run time: the cast to \<open>ThemeChoice\<close> checks nothing.
\<close>

type_synonym 'a reading = "'a \<times> jsstring list"

definition themeChoice_init :: "storage \<Rightarrow> jsstring reading" where
  "themeChoice_init ls =
     ((case ls LS_THEME_KEY of Some saved \<Rightarrow> saved | None \<Rightarrow> lit ''auto''),
      [LS_THEME_KEY])"

definition headSettings_init :: "(jsstring \<Rightarrow> json option) \<Rightarrow> storage \<Rightarrow> json reading" where
  "headSettings_init parse ls =
     (safeJsonParse parse (ls LS_HEAD_KEY) default_headSettings, [LS_HEAD_KEY])"

definition customEnabled_init :: "storage \<Rightarrow> bool reading" where
  "customEnabled_init ls =
     ((case ls LS_CUSTOM_PALETTE_ENABLED_KEY of
         None \<Rightarrow> False
       | Some raw \<Rightarrow> if raw = [] then False else raw = lit ''1''),
      [LS_CUSTOM_PALETTE_ENABLED_KEY])"

definition customPalette_init :: "(jsstring \<Rightarrow> json option) \<Rightarrow> storage \<Rightarrow> json reading" where
  "customPalette_init parse ls =
     (safeJsonParse parse (ls LS_CUSTOM_PALETTE_KEY) default_customPalette,
      [LS_CUSTOM_PALETTE_KEY])"

definition theme_choices :: "jsstring set" where
  "theme_choices = {lit ''auto'', lit ''dark'', lit ''dim'', lit ''light''}"

text \<open>
  \<open>useState\<close> with an initialiser function: React calls the function on the first
  render, when the cell is empty, and never again; a later render gives the cell's
  state and reads nothing.
\<close>

definition useState :: "'s option \<Rightarrow> 's reading \<Rightarrow> 's reading" where
  "useState cell init = (case cell of None \<Rightarrow> init | Some s \<Rightarrow> (s, []))"

text \<open>The four persisted cells of \<open>App\<close> and one render's \<open>useState\<close> calls.\<close>

record app_state =
  s_themeChoice :: jsstring
  s_headSettings :: json
  s_customEnabled :: bool
  s_customPalette :: json

definition App_useState ::
  "(jsstring \<Rightarrow> json option) \<Rightarrow> storage \<Rightarrow> app_state option \<Rightarrow> app_state reading" where
  "App_useState parse ls cells =
     (case useState (map_option s_themeChoice cells) (themeChoice_init ls) of (t, r1) \<Rightarrow>
      case useState (map_option s_headSettings cells) (headSettings_init parse ls) of (h, r2) \<Rightarrow>
      case useState (map_option s_customEnabled cells) (customEnabled_init ls) of (c, r3) \<Rightarrow>
      case useState (map_option s_customPalette cells) (customPalette_init parse ls) of (p, r4) \<Rightarrow>
        (\<lparr>s_themeChoice = t, s_headSettings = h, s_customEnabled = c, s_customPalette = p\<rparr>,
         r1 @ r2 @ r3 @ r4))"

text \<open>
  The calls on the document that the theme effect makes, in order:
  \<open>setAttribute\<close> on the root element, \<open>setProperty\<close> and \<open>removeProperty\<close>
  on its style.
\<close>

datatype dom_op =
    SetAttribute jsstring jsstring
  | SetProperty jsstring json
  | RemoveProperty jsstring

text \<open>
  \<open>custom.k\<close> for one of the seven palette names. Reading a property of \<open>null\<close>
  throws a TypeError (the message is V8's); an object gives its own property or
  \<open>undefined\<close>, here \<open>None\<close>; a boolean, a number, a string or an array has no
  property of these names.
\<close>

definition null_read :: "jsstring \<Rightarrow> exn" where
  "null_read k =
     Exn (Some (lit ''Cannot read properties of null (reading '' @ [cu (CHR 0x27)] @ k
                @ [cu (CHR 0x27)] @ lit '')''))
         (lit ''TypeError: Cannot read properties of null (reading '' @ [cu (CHR 0x27)] @ k
                @ [cu (CHR 0x27)] @ lit '')'')"

definition read_prop :: "json \<Rightarrow> jsstring \<Rightarrow> exn + json option" where
  "read_prop v k =
     (case v of
        JNull \<Rightarrow> Inl (null_read k)
      | JObj kvs \<Rightarrow> Inr (map_of kvs k)
      | _ \<Rightarrow> Inr None)"

text \<open>
  \<open>applyCustomPaletteVars\<close>: one statement \<open>if (custom.k) root.setProperty(var,
  custom.k)\<close> for each palette name, in the order of the source. The result is the
  exception, if one is thrown, and the calls made.
\<close>

definition palette_vars :: "(jsstring \<times> jsstring) list" where
  "palette_vars =
     [(lit ''bg'', lit ''--bg''), (lit ''panel'', lit ''--panel''),
      (lit ''panel2'', lit ''--panel2''), (lit ''border'', lit ''--border''),
      (lit ''text'', lit ''--text''), (lit ''muted'', lit ''--muted''),
      (lit ''accent'', lit ''--accent'')]"

fun set_palette_vars :: "json \<Rightarrow> (jsstring \<times> jsstring) list \<Rightarrow> exn option \<times> dom_op list" where
  "set_palette_vars custom [] = (None, [])"
| "set_palette_vars custom ((k, var) # rest) =
     (case read_prop custom k of
        Inl x \<Rightarrow> (Some x, [])
      | Inr v \<Rightarrow>
          (case set_palette_vars custom rest of
             (x, ops) \<Rightarrow>
               (x, (case v of
                      Some j \<Rightarrow> if truthy_json j then [SetProperty var j] else []
                    | None \<Rightarrow> []) @ ops)))"

definition applyCustomPaletteVars :: "json \<Rightarrow> exn option \<times> dom_op list" where
  "applyCustomPaletteVars custom = set_palette_vars custom palette_vars"

definition clearCustomPaletteVars :: "dom_op list" where
  "clearCustomPaletteVars = map (\<lambda>(k, var). RemoveProperty var) palette_vars"

text \<open>
  \<open>apply\<close>, the function the theme effect calls when the component has mounted.
  \<open>getSystemTheme()\<close> is the parameter \<open>systemTheme\<close>. Nothing catches what
  \<open>applyCustomPaletteVars\<close> throws.
\<close>

definition theme_apply :: "jsstring \<Rightarrow> app_state \<Rightarrow> exn option \<times> dom_op list" where
  "theme_apply systemTheme s =
     (let resolved = (if s_themeChoice s = lit ''auto'' then systemTheme else s_themeChoice s);
          ops = [SetAttribute (lit ''data-theme'') resolved]
      in if s_customEnabled s
         then (case applyCustomPaletteVars (s_customPalette s) of
                 (x, ops') \<Rightarrow> (x, ops @ ops'))
         else (None, ops @ clearCustomPaletteVars))"

text \<open>
  Startup: the first render fills the four cells, then the theme effect runs
  \<open>apply\<close>. (The first render itself reads no property of the head settings or
  of the palette: the settings dialog is closed. The effects also write the four
  entries back, which reads nothing.)
\<close>

record startup_result =
  r_state :: app_state
  r_reads :: "jsstring list"
  r_thrown :: "exn option"
  r_dom :: "dom_op list"

definition startup ::
  "(jsstring \<Rightarrow> json option) \<Rightarrow> jsstring \<Rightarrow> storage \<Rightarrow> startup_result" where
  "startup parse systemTheme ls =
     (case App_useState parse ls None of
        (s, rs) \<Rightarrow>
          (case theme_apply systemTheme s of
             (x, ops) \<Rightarrow> \<lparr>r_state = s, r_reads = rs, r_thrown = x, r_dom = ops\<rparr>))"


section \<open>A small engine for concrete instances\<close>

text \<open>
  An engine with one component, used where a theorem is instantiated: the document is
  the component's inner markup and the global style sheet. Its \<open>components\<close>
  resets the children first and then adds the parsed fragment, so a fragment it
  rejects (here: one whose angle brackets do not pair up) makes it throw after the
  reset. The interface promises no more of a call that fails.
\<close>

record stub_doc =
  inner :: jsstring
  sheet :: jsstring
  selected :: bool

definition stub_parses :: "jsstring \<Rightarrow> bool" where
  "stub_parses html = (length (filter (\<lambda>c. c = cu (CHR ''<'')) html)
                       = length (filter (\<lambda>c. c = cu (CHR ''>'')) html))"

definition stub_components :: "unit \<Rightarrow> jsstring \<Rightarrow> stub_doc \<Rightarrow> exn option \<times> stub_doc" where
  "stub_components n html d =
     (let d' = d\<lparr>inner := []\<rparr>
      in if stub_parses html then (None, d'\<lparr>inner := html\<rparr>)
         else (Some (Exn (Some (lit ''unclosed tag'')) (lit ''Error: unclosed tag'')), d'))"

definition stub_engine :: "(stub_doc, unit) engine" where
  "stub_engine =
     \<lparr>getHtml = (\<lambda>d. Inr (inner d)),
      getCss = (\<lambda>d. Inr (sheet d)),
      getSelected = (\<lambda>d. if selected d then Some () else None),
      setStyle = (\<lambda>css d. d\<lparr>sheet := css\<rparr>),
      components = stub_components\<rparr>"


text \<open>
  An engine whose \<open>getCss\<close> has the form of GrapesJS's: the configured protected
  style sheet, then the serialization of the rules that were set. The repository's
  \<open>grapesjs.init\<close> call passes no \<open>protectedCss\<close>, so the library's own
  protected sheet stays in force.
\<close>

definition protecting_engine :: "jsstring \<Rightarrow> (jsstring \<Rightarrow> jsstring) \<Rightarrow> (stub_doc, unit) engine" where
  "protecting_engine protectedCss serialize =
     \<lparr>getHtml = (\<lambda>d. Inr (inner d)),
      getCss = (\<lambda>d. Inr (protectedCss @ serialize (sheet d))),
      getSelected = (\<lambda>d. if selected d then Some () else None),
      setStyle = (\<lambda>css d. d\<lparr>sheet := css\<rparr>),
      components = stub_components\<rparr>"

text \<open>
  Three stores and a parser for concrete instances: a store with no entry; one with
  the theme \<open>dark\<close>, the palette flag \<open>1\<close>, and a head entry and a palette
  entry that are not JSON; and one with the theme \<open>purple\<close>, the palette flag
  \<open>1\<close> and the palette \<open>null\<close>. The parser does what \<open>JSON.parse\<close> does
  on these texts: \<open>null\<close> parses, \<open>{oops\<close> is a syntax error.
\<close>

definition stored_none :: storage where
  "stored_none = (\<lambda>k. None)"

definition stored_some :: storage where
  "stored_some =
     (\<lambda>k. if k = LS_THEME_KEY then Some (lit ''dark'')
          else if k = LS_HEAD_KEY then Some (lit ''{oops'')
          else if k = LS_CUSTOM_PALETTE_ENABLED_KEY then Some (lit ''1'')
          else if k = LS_CUSTOM_PALETTE_KEY then Some (lit ''{oops'')
          else None)"

definition stored_bad :: storage where
  "stored_bad =
     (\<lambda>k. if k = LS_THEME_KEY then Some (lit ''purple'')
          else if k = LS_CUSTOM_PALETTE_ENABLED_KEY then Some (lit ''1'')
          else if k = LS_CUSTOM_PALETTE_KEY then Some (lit ''null'')
          else None)"

definition parse_stub :: "jsstring \<Rightarrow> json option" where
  "parse_stub r = (if r = lit ''null'' then Some JNull else None)"


section \<open>Escaping\<close>

lemma replaceAll_Nil: "replaceAll p r [] = []"
  by (simp add: replaceAll_def)

lemma replaceAll_Cons: "replaceAll p r (c # s) = (if c = p then r else [c]) @ replaceAll p r s"
  by (simp add: replaceAll_def)

lemma replaceAll_append: "replaceAll p r (a @ b) = replaceAll p r a @ replaceAll p r b"
  by (simp add: replaceAll_def)

lemma escapeHtml_append: "escapeHtml (a @ b) = escapeHtml a @ escapeHtml b"
  by (simp add: escapeHtml_def replaceAll_append)

lemma escapeHtml_Nil: "escapeHtml [] = []"
  by (simp add: escapeHtml_def replaceAll_Nil)

text \<open>
  On one code unit the five passes give the unit's entity: the entities the earlier
  passes write contain none of the units the later passes look for.
\<close>

lemma escapeHtml_single: "escapeHtml [c] = escape_unit c"
  by (simp add: escapeHtml_def escape_unit_def replaceAll_Cons replaceAll_Nil lit_def cu_def)

lemma escapeHtml_Cons: "escapeHtml (c # s) = escape_unit c @ escapeHtml s"
  using escapeHtml_append [of "[c]" s] by (simp add: escapeHtml_single)

lemma escapeHtml_one_pass: "escapeHtml s = concat (map escape_unit s)"
  by (induction s) (simp_all add: escapeHtml_Nil escapeHtml_Cons)

lemma escape_unit_safe:
  \<open>set (escape_unit c) \<inter> {cu (CHR ''<''), cu (CHR ''>''), cu (CHR ''"''), cu (CHR 0x27)} = {}\<close>
  by (simp add: escape_unit_def lit_def cu_def)

lemma escapeHtml_safe:
  \<open>set (escapeHtml s) \<inter> {cu (CHR ''<''), cu (CHR ''>''), cu (CHR ''"''), cu (CHR 0x27)} = {}\<close>
proof (induction s)
  case Nil
  show ?case by (simp add: escapeHtml_Nil)
next
  case (Cons c s)
  from escape_unit_safe [of c] Cons show ?case
    by (simp only: escapeHtml_Cons set_append Int_Un_distrib2 Un_empty)
qed

lemma export_headHtml_verbatim: "export_headHtml h = h"
  by (simp add: export_headHtml_def or_else_def)


section \<open>The exported document\<close>

text \<open>
  Claim C1. With an editor attached whose getters return \<open>html\<close> and \<open>css\<close>,
  \<open>exportProjectFiles\<close> triggers three downloads, \<open>base.html\<close>, \<open>base.css\<close> and
  \<open>base.js\<close>. The HTML payload is, in this order: the doctype, \<open>html lang="en"\<close>,
  the head with the charset meta, the viewport meta, the title, the head fragment
  as it is and the style sheet link to \<open>./base.css\<close>, then the body with the HTML
  fragment as it is and the script tag with \<open>src="./base.js"\<close>. In the title each
  of \<open>&\<close>, \<open><\<close>, \<open>>\<close> and the two quotes stands as its entity and every other
  code unit as itself, so no \<open><\<close>, \<open>>\<close> or quote is left in it. The CSS
  payload is the \<open>css\<close> text and the JS payload the \<open>js\<close> text, unchanged.
\<close>

theorem exportProjectFiles_document:
  assumes \<open>getHtml eng e = Inr html\<close> and \<open>getCss eng e = Inr css\<close>
  shows \<open>exportProjectFiles eng (Some e) js hs = Inr
     [\<lparr>filename = export_base (exportBaseName hs) @ lit ''.html'',
       content =
         lit ''<!doctype html>\<newline><html lang="en">\<newline><head>\<newline>  <meta charset="utf-8" />\<newline>  <meta name="viewport" content="width=device-width,initial-scale=1" />\<newline>  <title>''
         @ concat (map escape_unit (export_pageTitle (pageTitle hs)))
         @ lit ''</title>\<newline>''
         @ headHtml hs
         @ lit ''\<newline>  <link rel="stylesheet" href="./''
         @ export_base (exportBaseName hs)
         @ lit ''.css" />\<newline></head>\<newline><body>\<newline>''
         @ html
         @ lit ''\<newline><script src="./''
         @ export_base (exportBaseName hs)
         @ lit ''.js"></script>\<newline></body>\<newline></html>'',
       mime = lit ''text/html;charset=utf-8''\<rparr>,
      \<lparr>filename = export_base (exportBaseName hs) @ lit ''.css'', content = css,
       mime = lit ''text/css;charset=utf-8''\<rparr>,
      \<lparr>filename = export_base (exportBaseName hs) @ lit ''.js'', content = js,
       mime = lit ''text/javascript;charset=utf-8''\<rparr>]
    \<and> set (concat (map escape_unit (export_pageTitle (pageTitle hs))))
        \<inter> {cu (CHR ''<''), cu (CHR ''>''), cu (CHR ''"''), cu (CHR 0x27)} = {}\<close>
proof -
  have doc: \<open>htmlDoc t h b html =
         lit ''<!doctype html>\<newline><html lang="en">\<newline><head>\<newline>  <meta charset="utf-8" />\<newline>  <meta name="viewport" content="width=device-width,initial-scale=1" />\<newline>  <title>''
         @ concat (map escape_unit t)
         @ lit ''</title>\<newline>''
         @ h
         @ lit ''\<newline>  <link rel="stylesheet" href="./''
         @ b
         @ lit ''.css" />\<newline></head>\<newline><body>\<newline>''
         @ html
         @ lit ''\<newline><script src="./''
         @ b
         @ lit ''.js"></script>\<newline></body>\<newline></html>''\<close> for t h b
    by (simp add: htmlDoc_def escapeHtml_one_pass lit_def)
  have \<open>exportProjectFiles eng (Some e) js hs = Inr
     [\<lparr>filename = export_base (exportBaseName hs) @ lit ''.html'',
       content = htmlDoc (export_pageTitle (pageTitle hs)) (headHtml hs)
                   (export_base (exportBaseName hs)) html,
       mime = lit ''text/html;charset=utf-8''\<rparr>,
      \<lparr>filename = export_base (exportBaseName hs) @ lit ''.css'', content = css,
       mime = lit ''text/css;charset=utf-8''\<rparr>,
      \<lparr>filename = export_base (exportBaseName hs) @ lit ''.js'', content = js,
       mime = lit ''text/javascript;charset=utf-8''\<rparr>]\<close>
    using assms
    by (simp add: exportProjectFiles_def getEditorHtml_def getEditorCss_def Let_def
        export_headHtml_verbatim)
  then show ?thesis
    using escapeHtml_safe [of "export_pageTitle (pageTitle hs)"]
    by (simp only: doc escapeHtml_one_pass)
qed

text \<open>
  The example of the specification: html \<open><p>hi</p>\<close>, css \<open>body{margin:0}\<close>, js
  \<open>console.log(1)\<close>, title \<open>T&T\<close>, base \<open>site\<close>, no head fragment.
\<close>

theorem exportProjectFiles_document_witness:
  \<open>getHtml stub_engine
      \<lparr>inner = lit ''<p>hi</p>'', sheet = lit ''body{margin:0}'', selected = False\<rparr>
      = Inr (lit ''<p>hi</p>'')
   \<and> getCss stub_engine
      \<lparr>inner = lit ''<p>hi</p>'', sheet = lit ''body{margin:0}'', selected = False\<rparr>
      = Inr (lit ''body{margin:0}'')
   \<and> exportProjectFiles stub_engine
        (Some \<lparr>inner = lit ''<p>hi</p>'', sheet = lit ''body{margin:0}'', selected = False\<rparr>)
        (lit ''console.log(1)'')
        \<lparr>pageTitle = lit ''T&T'', headHtml = [], exportBaseName = lit ''site''\<rparr>
      = Inr
     [\<lparr>filename = lit ''site.html'',
       content =
         lit ''<!doctype html>\<newline><html lang="en">\<newline><head>\<newline>  <meta charset="utf-8" />\<newline>  <meta name="viewport" content="width=device-width,initial-scale=1" />\<newline>  <title>T&amp;T</title>\<newline>\<newline>  <link rel="stylesheet" href="./site.css" />\<newline></head>\<newline><body>\<newline><p>hi</p>\<newline><script src="./site.js"></script>\<newline></body>\<newline></html>'',
       mime = lit ''text/html;charset=utf-8''\<rparr>,
      \<lparr>filename = lit ''site.css'', content = lit ''body{margin:0}'',
       mime = lit ''text/css;charset=utf-8''\<rparr>,
      \<lparr>filename = lit ''site.js'', content = lit ''console.log(1)'',
       mime = lit ''text/javascript;charset=utf-8''\<rparr>]\<close>
proof -
  let ?d = \<open>\<lparr>inner = lit ''<p>hi</p>'', sheet = lit ''body{margin:0}'', selected = False\<rparr>\<close>
  have h: \<open>getHtml stub_engine ?d = Inr (lit ''<p>hi</p>'')\<close>
    and c: \<open>getCss stub_engine ?d = Inr (lit ''body{margin:0}'')\<close>
    by (simp_all add: stub_engine_def)
  have b: \<open>export_base (lit ''site'') = lit ''site''\<close>
    by (simp add: export_base_def or_else_def trim_def lit_def cu_def isSpace_def forbidden_def)
  have t: \<open>concat (map escape_unit (export_pageTitle (lit ''T&T''))) = lit ''T&amp;T''\<close>
    by (simp add: export_pageTitle_def or_else_def trim_def escape_unit_def lit_def cu_def
        isSpace_def)
  show ?thesis
    using exportProjectFiles_document [OF h c, of "lit ''console.log(1)''"
        "\<lparr>pageTitle = lit ''T&T'', headHtml = [], exportBaseName = lit ''site''\<rparr>"]
    by (simp add: h c b t) (simp add: lit_def)
qed


section \<open>The title\<close>

lemma default_title_trim:
  "trim (lit ''Vite HTML Editor Export'') = lit ''Vite HTML Editor Export''"
  by (simp add: trim_def lit_def cu_def isSpace_def)

lemma default_title_escape:
  "escapeHtml (lit ''Vite HTML Editor Export'') = lit ''Vite HTML Editor Export''"
  by (simp add: escapeHtml_one_pass escape_unit_def lit_def cu_def)

text \<open>
  Claim C10. The title element of the exported document holds the escape of the trimmed
  page title; when the page title is the empty string it holds the fixed default
  \<open>Vite HTML Editor Export\<close>. (The document starts with the five fixed lines up
  to \<open><title>\<close>; the title has no \<open><\<close>, so the first \<open></title>\<close> ends
  it.)
\<close>

theorem exportProjectFiles_title:
  assumes \<open>getHtml eng e = Inr html\<close> and \<open>getCss eng e = Inr css\<close>
  shows \<open>\<exists>d rest. exportProjectFiles eng (Some e) js hs = Inr (d # rest)
      \<and> prefix
          (lit ''<!doctype html>\<newline><html lang="en">\<newline><head>\<newline>  <meta charset="utf-8" />\<newline>  <meta name="viewport" content="width=device-width,initial-scale=1" />\<newline>  <title>''
           @ (if pageTitle hs = [] then lit ''Vite HTML Editor Export''
              else escapeHtml (trim (pageTitle hs)))
           @ lit ''</title>'')
          (content d)\<close>
proof -
  let ?T = \<open>if pageTitle hs = [] then lit ''Vite HTML Editor Export''
            else escapeHtml (trim (pageTitle hs))\<close>
  have t: \<open>escapeHtml (export_pageTitle (pageTitle hs)) = ?T\<close>
    by (simp add: export_pageTitle_def or_else_def default_title_trim default_title_escape)
  have p: \<open>prefix
          (lit ''<!doctype html>\<newline><html lang="en">\<newline><head>\<newline>  <meta charset="utf-8" />\<newline>  <meta name="viewport" content="width=device-width,initial-scale=1" />\<newline>  <title>''
           @ escapeHtml t @ lit ''</title>'')
          (htmlDoc t h b html)\<close> for t h b
    by (simp add: htmlDoc_def lit_def)
  obtain d rest where ex: \<open>exportProjectFiles eng (Some e) js hs = Inr (d # rest)\<close>
    and d: \<open>content d = htmlDoc (export_pageTitle (pageTitle hs))
              (export_headHtml (headHtml hs)) (export_base (exportBaseName hs)) html\<close>
    using assms
    by (simp add: exportProjectFiles_def getEditorHtml_def getEditorCss_def Let_def)
  have \<open>prefix
          (lit ''<!doctype html>\<newline><html lang="en">\<newline><head>\<newline>  <meta charset="utf-8" />\<newline>  <meta name="viewport" content="width=device-width,initial-scale=1" />\<newline>  <title>''
           @ ?T @ lit ''</title>'')
          (content d)\<close>
    unfolding d t [symmetric] by (rule p)
  with ex show ?thesis by blast
qed

theorem exportProjectFiles_title_witness:
  \<open>getHtml stub_engine \<lparr>inner = lit ''<p>hi</p>'', sheet = [], selected = False\<rparr>
      = Inr (lit ''<p>hi</p>'')
   \<and> getCss stub_engine \<lparr>inner = lit ''<p>hi</p>'', sheet = [], selected = False\<rparr> = Inr []
   \<and> (\<exists>d rest.
        exportProjectFiles stub_engine
          (Some \<lparr>inner = lit ''<p>hi</p>'', sheet = [], selected = False\<rparr>) []
          \<lparr>pageTitle = lit '' a<b '', headHtml = [], exportBaseName = []\<rparr> = Inr (d # rest)
        \<and> prefix
          (lit ''<!doctype html>\<newline><html lang="en">\<newline><head>\<newline>  <meta charset="utf-8" />\<newline>  <meta name="viewport" content="width=device-width,initial-scale=1" />\<newline>  <title>a&lt;b</title>'')
          (content d))
   \<and> (\<exists>d rest.
        exportProjectFiles stub_engine
          (Some \<lparr>inner = lit ''<p>hi</p>'', sheet = [], selected = False\<rparr>) []
          \<lparr>pageTitle = [], headHtml = [], exportBaseName = []\<rparr> = Inr (d # rest)
        \<and> prefix
          (lit ''<!doctype html>\<newline><html lang="en">\<newline><head>\<newline>  <meta charset="utf-8" />\<newline>  <meta name="viewport" content="width=device-width,initial-scale=1" />\<newline>  <title>Vite HTML Editor Export</title>'')
          (content d))\<close>
proof -
  let ?d = \<open>\<lparr>inner = lit ''<p>hi</p>'', sheet = [], selected = False\<rparr>\<close>
  have h: \<open>getHtml stub_engine ?d = Inr (lit ''<p>hi</p>'')\<close>
    and c: \<open>getCss stub_engine ?d = Inr []\<close>
    by (simp_all add: stub_engine_def)
  have t: \<open>escapeHtml (trim (lit '' a<b '')) = lit ''a&lt;b''\<close>
    by (simp add: escapeHtml_one_pass escape_unit_def trim_def lit_def cu_def isSpace_def)
  have n: \<open>lit '' a<b '' \<noteq> []\<close>
    by (simp add: lit_def)
  have one: \<open>\<exists>d rest.
        exportProjectFiles stub_engine (Some ?d) []
          \<lparr>pageTitle = lit '' a<b '', headHtml = [], exportBaseName = []\<rparr> = Inr (d # rest)
        \<and> prefix
          (lit ''<!doctype html>\<newline><html lang="en">\<newline><head>\<newline>  <meta charset="utf-8" />\<newline>  <meta name="viewport" content="width=device-width,initial-scale=1" />\<newline>  <title>a&lt;b</title>'')
          (content d)\<close>
    using exportProjectFiles_title [OF h c, of "[]"
        "\<lparr>pageTitle = lit '' a<b '', headHtml = [], exportBaseName = []\<rparr>"]
    by (simp add: t n) (simp add: lit_def)
  have two: \<open>\<exists>d rest.
        exportProjectFiles stub_engine (Some ?d) []
          \<lparr>pageTitle = [], headHtml = [], exportBaseName = []\<rparr> = Inr (d # rest)
        \<and> prefix
          (lit ''<!doctype html>\<newline><html lang="en">\<newline><head>\<newline>  <meta charset="utf-8" />\<newline>  <meta name="viewport" content="width=device-width,initial-scale=1" />\<newline>  <title>Vite HTML Editor Export</title>'')
          (content d)\<close>
    using exportProjectFiles_title [OF h c, of "[]"
        "\<lparr>pageTitle = [], headHtml = [], exportBaseName = []\<rparr>"]
    by simp (simp add: lit_def)
  from h c one two show ?thesis by blast
qed



section \<open>The base name\<close>

lemma replace_runs_set:
  "set (replace_runs P rep s) \<subseteq> set rep \<union> {c \<in> set s. \<not> P c}"
proof (induction P rep s rule: replace_runs.induct)
  case (1 P rep)
  show ?case by simp
next
  case (2 P rep c cs)
  show ?case
  proof (cases "P c")
    case True
    have "set (dropWhile P cs) \<subseteq> set cs" by (auto dest: set_dropWhileD)
    with True 2(1) show ?thesis by auto
  next
    case False
    with 2(2) show ?thesis by auto
  qed
qed

lemma replace_runs_Nil_iff: "rep \<noteq> [] \<Longrightarrow> replace_runs P rep s = [] \<longleftrightarrow> s = []"
  by (cases s) simp_all

lemma dropWhile_all: "(\<forall>c \<in> set (dropWhile P s). P c) \<longleftrightarrow> (\<forall>c \<in> set s. P c)"
  by (induction s) auto

lemma trim_Nil_iff: "trim s = [] \<longleftrightarrow> (\<forall>c \<in> set s. isSpace c)"
  by (simp add: trim_def dropWhile_eq_Nil_conv dropWhile_all)

lemma dash_plain: "\<not> forbidden (cu (CHR ''-''))" "\<not> isSpace (cu (CHR ''-''))"
  by (simp_all add: forbidden_def isSpace_def cu_def)

lemma replace_runs_no_adjacent:
  "no_adjacent P s \<Longrightarrow> replace_runs P [r] s = map (\<lambda>c. if P c then r else c) s"
proof (induction P s rule: no_adjacent.induct)
  case (1 P x y zs)
  then show ?case by (cases "P x") auto
qed simp_all

text \<open>A whole run of class units, up to a unit outside the class, gives one \<open>rep\<close>.\<close>

lemma replace_runs_run:
  assumes "r \<noteq> []" and "\<forall>c \<in> set r. P c" and "s = [] \<or> \<not> P (hd s)"
  shows "replace_runs P rep (r @ s) = rep @ replace_runs P rep s"
proof -
  from assms(1) obtain c r' where r: "r = c # r'" by (cases r) auto
  from assms(3) have "dropWhile P s = s" by (cases s) auto
  with assms(2) have "dropWhile P (r' @ s) = s" by (simp add: r dropWhile_append2)
  with assms(2) show ?thesis by (simp add: r)
qed

lemma export_base_plain:
  assumes "c \<in> set (export_base s)"
  shows "\<not> forbidden c \<and> \<not> isSpace c"
proof -
  let ?t = "trim (or_else s (lit ''vite-html-editor-export''))"
  let ?m = "replace_runs forbidden (lit ''-'') ?t"
  from assms have "c \<in> set (lit ''-'') \<union> {c \<in> set ?m. \<not> isSpace c}"
    using replace_runs_set [of isSpace "lit ''-''" ?m] by (auto simp: export_base_def)
  then consider "c = cu (CHR ''-'')" | "c \<in> set ?m" "\<not> isSpace c"
    by (auto simp: lit_def)
  then show ?thesis
  proof cases
    case 1
    then show ?thesis by (simp add: dash_plain)
  next
    case 2
    from 2(1) have "c \<in> set (lit ''-'') \<union> {c \<in> set ?t. \<not> forbidden c}"
      using replace_runs_set [of forbidden "lit ''-''" ?t] by auto
    then have "c = cu (CHR ''-'') \<or> \<not> forbidden c" by (auto simp: lit_def)
    with 2(2) show ?thesis by (auto simp: dash_plain)
  qed
qed

text \<open>
  Claim C2, as amended. The empty base name gives the fixed default base
  name. A base name with at least one unit that is not white space is trimmed,
  then every run of the listed characters is replaced by one \<open>-\<close>, then every
  run of white space by one \<open>-\<close>; the result is not empty and holds neither a
  listed character nor white space; where no two listed characters are adjacent, it
  is what the specification's wording gives (one \<open>-\<close> for each listed character).
\<close>

theorem export_base_rule:
  "export_base [] = lit ''vite-html-editor-export''
   \<and> ((\<exists>c \<in> set s. \<not> isSpace c) \<longrightarrow>
        export_base s
          = replace_runs isSpace (lit ''-'') (replace_runs forbidden (lit ''-'') (trim s))
        \<and> export_base s \<noteq> []
        \<and> (\<forall>c \<in> set (export_base s). \<not> forbidden c \<and> \<not> isSpace c)
        \<and> (no_adjacent forbidden (trim s) \<longrightarrow> export_base s = sanitize_spec s))"
proof (intro conjI impI)
  show "export_base [] = lit ''vite-html-editor-export''"
    by (simp add: export_base_def or_else_def trim_def lit_def cu_def isSpace_def forbidden_def)
next
  assume ns: "\<exists>c \<in> set s. \<not> isSpace c"
  then have s: "s \<noteq> []" by auto
  then show eq: "export_base s
      = replace_runs isSpace (lit ''-'') (replace_runs forbidden (lit ''-'') (trim s))"
    by (simp add: export_base_def or_else_def)
  from ns have "trim s \<noteq> []" by (simp add: trim_Nil_iff)
  then show "export_base s \<noteq> []"
    by (simp add: eq replace_runs_Nil_iff lit_def)
  show "\<forall>c \<in> set (export_base s). \<not> forbidden c \<and> \<not> isSpace c"
    using export_base_plain by blast
  assume "no_adjacent forbidden (trim s)"
  then show "export_base s = sanitize_spec s"
    by (simp add: eq sanitize_spec_def lit_def replace_runs_no_adjacent)
qed

theorem export_base_rule_witness:
  "(\<exists>c \<in> set (lit ''  a/b:c  ''). \<not> isSpace c)
   \<and> no_adjacent forbidden (trim (lit ''  a/b:c  ''))
   \<and> export_base [] = lit ''vite-html-editor-export''
   \<and> export_base (lit ''a/b:c'') = lit ''a-b-c''
   \<and> export_base (lit ''  a/b:c  '') = lit ''a-b-c''
   \<and> sanitize_spec (lit ''  a/b:c  '') = lit ''a-b-c''
   \<and> export_base (lit ''  a/b:c  '') \<noteq> []
   \<and> list_all (\<lambda>c. \<not> forbidden c \<and> \<not> isSpace c) (export_base (lit ''  a/b:c  ''))"
proof -
  have v: "export_base (lit ''  a/b:c  '') = lit ''a-b-c''"
    by (simp add: export_base_def or_else_def trim_def lit_def cu_def isSpace_def forbidden_def)
  have v': "export_base (lit ''a/b:c'') = lit ''a-b-c''"
    by (simp add: export_base_def or_else_def trim_def lit_def cu_def isSpace_def forbidden_def)
  have h1: "\<exists>c \<in> set (lit ''  a/b:c  ''). \<not> isSpace c"
    by (simp add: lit_def cu_def isSpace_def)
  have h2: "no_adjacent forbidden (trim (lit ''  a/b:c  ''))"
    by (simp add: trim_def lit_def cu_def isSpace_def forbidden_def)
  from export_base_rule [of "lit ''  a/b:c  ''"] h1 h2
  have r: "export_base [] = lit ''vite-html-editor-export''"
    "export_base (lit ''  a/b:c  '') \<noteq> []"
    "\<forall>c \<in> set (export_base (lit ''  a/b:c  '')). \<not> forbidden c \<and> \<not> isSpace c"
    "export_base (lit ''  a/b:c  '') = sanitize_spec (lit ''  a/b:c  '')"
    by blast+
  from r(4) v have "sanitize_spec (lit ''  a/b:c  '') = lit ''a-b-c''" by simp
  with h1 h2 v v' r(1,2,3) show ?thesis by (simp only: list_all_iff) blast
qed

text \<open>
  Claim C2 as stated fails twice. A base name of three blanks is not empty, so the
  default is not taken, and it sanitizes to the empty string: the files are
  \<open>.html\<close>, \<open>.css\<close> and \<open>.js\<close>. And \<open>a//b\<close> gives \<open>a-b\<close>, where one
  \<open>-\<close> for each listed character would give \<open>a--b\<close>.
\<close>

theorem export_base_counterexample:
  "export_base (lit ''   '') = []
   \<and> export_base (lit ''   '') \<noteq> lit ''vite-html-editor-export''
   \<and> export_base (lit ''   '') @ lit ''.html'' = lit ''.html''
   \<and> export_base (lit ''a//b'') = lit ''a-b''
   \<and> sanitize_spec (lit ''a//b'') = lit ''a--b''
   \<and> export_base (lit ''a//b'') \<noteq> sanitize_spec (lit ''a//b'')"
  by (simp add: export_base_def sanitize_spec_def or_else_def trim_def lit_def cu_def
      isSpace_def forbidden_def)

text \<open>The examples of the specification.\<close>

lemma export_base_examples:
  "export_base (lit ''a/b:c'') = lit ''a-b-c''"
  "export_base (lit ''My Site!.html'') = lit ''My-Site!.html''"
  by (simp_all add: export_base_def or_else_def trim_def lit_def cu_def isSpace_def forbidden_def)


section \<open>Applying edited text\<close>

text \<open>
  Claim C3. With no component selected, \<open>applyHtmlToSelected\<close> returns a failure
  whose message starts with \<open>No component selected\<close>, and the engine is in the
  state it was in: \<open>getHtml\<close> and \<open>getCss\<close> give what they gave before. This
  holds for every document and every edited HTML text. Through \<open>applyEdits\<close>, in
  advanced mode on the HTML tab, the message becomes the status.
\<close>

theorem applyHtmlToSelected_no_selection:
  assumes "getSelected eng e = None"
  shows "applyHtmlToSelected eng e html =
           (\<lparr>ok = False,
             message = lit ''No component selected. Click an element on the canvas, then apply HTML.''\<rparr>,
            e)
         \<and> \<not> ok (fst (applyHtmlToSelected eng e html))
         \<and> prefix (lit ''No component selected'') (message (fst (applyHtmlToSelected eng e html)))
         \<and> getHtml eng (snd (applyHtmlToSelected eng e html)) = getHtml eng e
         \<and> getCss eng (snd (applyHtmlToSelected eng e html)) = getCss eng e
         \<and> applyEdits eng (Some e) True (st\<lparr>tab := Html, htmlValue := html\<rparr>) =
             (st\<lparr>tab := Html, htmlValue := html,
                 status := lit ''No component selected. Click an element on the canvas, then apply HTML.''\<rparr>,
              Some e)"
  using assms by (simp add: applyHtmlToSelected_def applyEdits_def lit_def)

theorem applyHtmlToSelected_no_selection_witness:
  "getSelected stub_engine \<lparr>inner = lit ''<h1>x</h1>'', sheet = [], selected = False\<rparr> = None
   \<and> applyHtmlToSelected stub_engine
        \<lparr>inner = lit ''<h1>x</h1>'', sheet = [], selected = False\<rparr> (lit ''<p>y</p>'')
      = (\<lparr>ok = False,
          message = lit ''No component selected. Click an element on the canvas, then apply HTML.''\<rparr>,
         \<lparr>inner = lit ''<h1>x</h1>'', sheet = [], selected = False\<rparr>)"
proof -
  have h: "getSelected stub_engine \<lparr>inner = lit ''<h1>x</h1>'', sheet = [], selected = False\<rparr> = None"
    by (simp add: stub_engine_def)
  from applyHtmlToSelected_no_selection [OF h, of "lit ''<p>y</p>''"] h
  show ?thesis by blast
qed

text \<open>
  Claim C4, as amended. With a component selected, when the engine's
  \<open>components\<close> throws, \<open>applyHtmlToSelected\<close> catches the exception and returns
  a failure whose message is \<open>Failed to apply HTML: \<close> followed by the cause. It
  restores nothing: the document is in the state in which the failed call left it,
  and so unchanged where that call changed nothing before it threw. Through
  \<open>applyEdits\<close> the message becomes the status.
\<close>

theorem applyHtmlToSelected_throw:
  assumes "getSelected eng e = Some sel"
    and "components eng sel html e = (Some x, e')"
  shows "applyHtmlToSelected eng e html =
           (\<lparr>ok = False, message = lit ''Failed to apply HTML: '' @ cause x\<rparr>, e')
         \<and> suffix (cause x) (message (fst (applyHtmlToSelected eng e html)))
         \<and> (e' = e \<longrightarrow> getHtml eng (snd (applyHtmlToSelected eng e html)) = getHtml eng e
                    \<and> getCss eng (snd (applyHtmlToSelected eng e html)) = getCss eng e)
         \<and> applyEdits eng (Some e) True (st\<lparr>tab := Html, htmlValue := html\<rparr>) =
             (st\<lparr>tab := Html, htmlValue := html,
                 status := lit ''Failed to apply HTML: '' @ cause x\<rparr>,
              Some e')"
  using assms by (simp add: applyHtmlToSelected_def applyEdits_def suffix_def)

text \<open>
  Claim C4 as stated fails on an engine that resets the children before it parses:
  the fragment \<open><p\<close> makes the call throw, the failure is reported, and the
  component, which held \<open><h1>x</h1>\<close>, is left empty.
\<close>

theorem applyHtmlToSelected_throw_counterexample:
  "getSelected stub_engine \<lparr>inner = lit ''<h1>x</h1>'', sheet = [], selected = True\<rparr> = Some ()
   \<and> components stub_engine () (lit ''<p'')
        \<lparr>inner = lit ''<h1>x</h1>'', sheet = [], selected = True\<rparr>
      = (Some (Exn (Some (lit ''unclosed tag'')) (lit ''Error: unclosed tag'')),
         \<lparr>inner = [], sheet = [], selected = True\<rparr>)
   \<and> applyHtmlToSelected stub_engine
        \<lparr>inner = lit ''<h1>x</h1>'', sheet = [], selected = True\<rparr> (lit ''<p'')
      = (\<lparr>ok = False, message = lit ''Failed to apply HTML: unclosed tag''\<rparr>,
         \<lparr>inner = [], sheet = [], selected = True\<rparr>)
   \<and> getHtml stub_engine \<lparr>inner = lit ''<h1>x</h1>'', sheet = [], selected = True\<rparr>
      = Inr (lit ''<h1>x</h1>'')
   \<and> getHtml stub_engine
        (snd (applyHtmlToSelected stub_engine
               \<lparr>inner = lit ''<h1>x</h1>'', sheet = [], selected = True\<rparr> (lit ''<p'')))
      = Inr []
   \<and> lit ''<h1>x</h1>'' \<noteq> []"
  by (simp add: applyHtmlToSelected_def stub_engine_def stub_components_def stub_parses_def Let_def
      cause_def lit_def cu_def)

theorem applyHtmlToSelected_throw_witness:
  "getSelected stub_engine \<lparr>inner = lit ''<h1>x</h1>'', sheet = [], selected = True\<rparr> = Some ()
   \<and> components stub_engine () (lit ''<p'')
        \<lparr>inner = lit ''<h1>x</h1>'', sheet = [], selected = True\<rparr>
      = (Some (Exn (Some (lit ''unclosed tag'')) (lit ''Error: unclosed tag'')),
         \<lparr>inner = [], sheet = [], selected = True\<rparr>)
   \<and> applyHtmlToSelected stub_engine
        \<lparr>inner = lit ''<h1>x</h1>'', sheet = [], selected = True\<rparr> (lit ''<p'')
      = (\<lparr>ok = False, message = lit ''Failed to apply HTML: unclosed tag''\<rparr>,
         \<lparr>inner = [], sheet = [], selected = True\<rparr>)"
proof -
  let ?d = "\<lparr>inner = lit ''<h1>x</h1>'', sheet = [], selected = True\<rparr>"
  have h1: "getSelected stub_engine ?d = Some ()"
    by (simp add: stub_engine_def)
  have h2: "components stub_engine () (lit ''<p'') ?d
      = (Some (Exn (Some (lit ''unclosed tag'')) (lit ''Error: unclosed tag'')),
         \<lparr>inner = [], sheet = [], selected = True\<rparr>)"
    by (simp add: stub_engine_def stub_components_def stub_parses_def Let_def lit_def cu_def)
  have m: "lit ''Failed to apply HTML: '' @ cause (Exn (Some (lit ''unclosed tag'')) (lit ''Error: unclosed tag''))
        = lit ''Failed to apply HTML: unclosed tag''"
    by (simp add: cause_def lit_def)
  from applyHtmlToSelected_throw [OF h1 h2] h1 h2 show ?thesis
    by (simp add: m)
qed

text \<open>
  Claim C5. With an editor attached and advanced mode off, \<open>applyEdits\<close> sets the
  status to \<open>Enable Advanced Editing Mode to apply changes.\<close> and leaves the editor
  in the state it was in, on each of the three tabs; \<open>getHtml\<close> and \<open>getCss\<close>
  give what they gave before.
\<close>

theorem applyEdits_read_only:
  "applyEdits eng (Some e) False (st\<lparr>tab := t\<rparr>)
     = (st\<lparr>tab := t, status := lit ''Enable Advanced Editing Mode to apply changes.''\<rparr>,
        Some e)
   \<and> (\<forall>e'. snd (applyEdits eng (Some e) False (st\<lparr>tab := t\<rparr>)) = Some e' \<longrightarrow>
          getHtml eng e' = getHtml eng e \<and> getCss eng e' = getCss eng e)"
  by (simp add: applyEdits_def)

theorem applyEdits_read_only_witness:
  "applyEdits stub_engine
      (Some \<lparr>inner = lit ''<h1>x</h1>'', sheet = lit ''h1{}'', selected = True\<rparr>) False
      \<lparr>tab = Html, htmlValue = lit ''<p>y</p>'', cssValue = lit ''p{}'', status = lit ''Ready.'',
       rafRef = None\<rparr>
    = (\<lparr>tab = Html, htmlValue = lit ''<p>y</p>'', cssValue = lit ''p{}'',
        status = lit ''Enable Advanced Editing Mode to apply changes.'', rafRef = None\<rparr>,
       Some \<lparr>inner = lit ''<h1>x</h1>'', sheet = lit ''h1{}'', selected = True\<rparr>)
   \<and> applyEdits stub_engine
      (Some \<lparr>inner = lit ''<h1>x</h1>'', sheet = lit ''h1{}'', selected = True\<rparr>) False
      \<lparr>tab = Css, htmlValue = lit ''<p>y</p>'', cssValue = lit ''p{}'', status = lit ''Ready.'',
       rafRef = None\<rparr>
    = (\<lparr>tab = Css, htmlValue = lit ''<p>y</p>'', cssValue = lit ''p{}'',
        status = lit ''Enable Advanced Editing Mode to apply changes.'', rafRef = None\<rparr>,
       Some \<lparr>inner = lit ''<h1>x</h1>'', sheet = lit ''h1{}'', selected = True\<rparr>)
   \<and> applyEdits stub_engine
      (Some \<lparr>inner = lit ''<h1>x</h1>'', sheet = lit ''h1{}'', selected = True\<rparr>) False
      \<lparr>tab = Js, htmlValue = lit ''<p>y</p>'', cssValue = lit ''p{}'', status = lit ''Ready.'',
       rafRef = None\<rparr>
    = (\<lparr>tab = Js, htmlValue = lit ''<p>y</p>'', cssValue = lit ''p{}'',
        status = lit ''Enable Advanced Editing Mode to apply changes.'', rafRef = None\<rparr>,
       Some \<lparr>inner = lit ''<h1>x</h1>'', sheet = lit ''h1{}'', selected = True\<rparr>)"
proof -
  let ?d = "\<lparr>inner = lit ''<h1>x</h1>'', sheet = lit ''h1{}'', selected = True\<rparr>"
  let ?st = "\<lparr>tab = Html, htmlValue = lit ''<p>y</p>'', cssValue = lit ''p{}'',
             status = lit ''Ready.'', rafRef = None\<rparr>"
  have "applyEdits stub_engine (Some ?d) False (?st\<lparr>tab := t\<rparr>)
      = (?st\<lparr>tab := t, status := lit ''Enable Advanced Editing Mode to apply changes.''\<rparr>,
         Some ?d)" for t
    using applyEdits_read_only [where eng = stub_engine and e = ?d and st = ?st and t = t]
    by blast
  from this [of Html] this [of Css] this [of Js] show ?thesis by simp
qed


section \<open>Forward sync\<close>

lemma sync_sync: "sync eng e (sync eng e st) = sync eng e st"
  by (simp add: sync_def split: sum.splits)

lemma sync_funpow: "(sync eng e ^^ Suc n) st = sync eng e st"
  by (induction n) (simp_all add: sync_sync)

lemma sync_reads:
  "getHtml eng e = Inr h \<Longrightarrow> getCss eng e = Inr c \<Longrightarrow>
     sync eng e st = st\<lparr>htmlValue := h, cssValue := c\<rparr>"
  by (simp add: sync_def getEditorHtml_def getEditorCss_def)

text \<open>
  Claim C8. Against an engine state that does not change, any number of runs of
  \<open>sync\<close> leaves the component in the state one run leaves it in: the same HTML
  text and the same CSS text each time. A run that reads both serializations
  replaces both texts by them; the HTML is read first, so a throw of the HTML getter
  is the one reported.
\<close>

theorem sync_idempotent:
  "(sync eng e ^^ Suc n) st = sync eng e st
   \<and> htmlValue ((sync eng e ^^ Suc n) st) = htmlValue (sync eng e st)
   \<and> cssValue ((sync eng e ^^ Suc n) st) = cssValue (sync eng e st)
   \<and> (getHtml eng e = Inr h \<and> getCss eng e = Inr c \<longrightarrow>
        htmlValue (sync eng e st) = h \<and> cssValue (sync eng e st) = c)
   \<and> (getHtml eng e = Inl x \<longrightarrow>
        sync eng e st = st\<lparr>status := lit ''Sync failed: '' @ cause x\<rparr>)"
proof (intro conjI impI)
  show "(sync eng e ^^ Suc n) st = sync eng e st"
    by (rule sync_funpow)
  then show "htmlValue ((sync eng e ^^ Suc n) st) = htmlValue (sync eng e st)"
    and "cssValue ((sync eng e ^^ Suc n) st) = cssValue (sync eng e st)"
    by (simp_all only:)
next
  assume "getHtml eng e = Inr h \<and> getCss eng e = Inr c"
  then show "htmlValue (sync eng e st) = h" and "cssValue (sync eng e st) = c"
    by (simp_all add: sync_reads)
next
  assume "getHtml eng e = Inl x"
  then show "sync eng e st = st\<lparr>status := lit ''Sync failed: '' @ cause x\<rparr>"
    by (simp add: sync_def getEditorHtml_def)
qed

theorem sync_idempotent_witness:
  "getHtml stub_engine \<lparr>inner = lit ''<p>a</p>'', sheet = lit ''p{}'', selected = False\<rparr>
     = Inr (lit ''<p>a</p>'')
   \<and> getCss stub_engine \<lparr>inner = lit ''<p>a</p>'', sheet = lit ''p{}'', selected = False\<rparr>
     = Inr (lit ''p{}'')
   \<and> (sync stub_engine \<lparr>inner = lit ''<p>a</p>'', sheet = lit ''p{}'', selected = False\<rparr> ^^ Suc 2)
        \<lparr>tab = Html, htmlValue = [], cssValue = [], status = lit ''Ready.'', rafRef = None\<rparr>
     = \<lparr>tab = Html, htmlValue = lit ''<p>a</p>'', cssValue = lit ''p{}'',
        status = lit ''Ready.'', rafRef = None\<rparr>"
proof -
  let ?d = "\<lparr>inner = lit ''<p>a</p>'', sheet = lit ''p{}'', selected = False\<rparr>"
  let ?st = "\<lparr>tab = Html, htmlValue = [], cssValue = [], status = lit ''Ready.'', rafRef = None\<rparr>"
  have h: "getHtml stub_engine ?d = Inr (lit ''<p>a</p>'')"
    and c: "getCss stub_engine ?d = Inr (lit ''p{}'')"
    by (simp_all add: stub_engine_def)
  have s: "sync stub_engine ?d ?st =
      \<lparr>tab = Html, htmlValue = lit ''<p>a</p>'', cssValue = lit ''p{}'',
       status = lit ''Ready.'', rafRef = None\<rparr>"
    by (simp add: sync_def getEditorHtml_def getEditorCss_def h c)
  from sync_idempotent [where eng = stub_engine and e = ?d and n = 2 and st = ?st] have
    "(sync stub_engine ?d ^^ Suc 2) ?st = sync stub_engine ?d ?st" by blast
  with h c s show ?thesis by simp
qed

lemma protecting_engine_sel:
  "getHtml (protecting_engine p ser) d = Inr (inner d)"
  "getCss (protecting_engine p ser) d = Inr (p @ ser (sheet d))"
  "setStyle (protecting_engine p ser) css d = d\<lparr>sheet := css\<rparr>"
  by (simp_all add: protecting_engine_def)

text \<open>
  Claim C7, as amended. \<open>applyGlobalCss\<close> hands the text \<open>T\<close> to the engine's
  \<open>setStyle\<close> as it is, and a forward sync that reads both serializations stores
  as CSS text what the engine's \<open>getCss\<close> then returns. On an engine whose
  \<open>getCss\<close> puts its protected style sheet in front of the serialized rules, and
  for a \<open>T\<close> that the serializer gives back unchanged, that text is the protected
  sheet followed by \<open>T\<close>; it is \<open>T\<close> only where the protected sheet is empty.
\<close>

theorem css_apply_then_sync:
  "applyGlobalCss eng e T = setStyle eng T e
   \<and> (getHtml eng (setStyle eng T e) = Inr h \<and> getCss eng (setStyle eng T e) = Inr c \<longrightarrow>
        cssValue (sync eng (applyGlobalCss eng e T) st) = c)
   \<and> (serialize T = T \<longrightarrow>
        cssValue (sync (protecting_engine protectedCss serialize)
                    (applyGlobalCss (protecting_engine protectedCss serialize) d T) st')
          = protectedCss @ T
        \<and> (cssValue (sync (protecting_engine protectedCss serialize)
                    (applyGlobalCss (protecting_engine protectedCss serialize) d T) st') = T
             \<longleftrightarrow> protectedCss = []))"
proof (intro conjI impI)
  show "applyGlobalCss eng e T = setStyle eng T e"
    by (simp add: applyGlobalCss_def)
next
  assume "getHtml eng (setStyle eng T e) = Inr h \<and> getCss eng (setStyle eng T e) = Inr c"
  then show "cssValue (sync eng (applyGlobalCss eng e T) st) = c"
    by (simp add: applyGlobalCss_def sync_reads)
next
  let ?E = "protecting_engine protectedCss serialize"
  assume l: "serialize T = T"
  have "sync ?E (applyGlobalCss ?E d T) st'
      = st'\<lparr>htmlValue := inner d, cssValue := protectedCss @ serialize T\<rparr>"
    by (simp add: applyGlobalCss_def sync_reads protecting_engine_sel)
  with l show v: "cssValue (sync ?E (applyGlobalCss ?E d T) st') = protectedCss @ T"
    by simp
  show "cssValue (sync ?E (applyGlobalCss ?E d T) st') = T \<longleftrightarrow> protectedCss = []"
    by (simp add: v)
qed

text \<open>
  Claim C7 as stated fails where the engine protects a style sheet, as GrapesJS does
  unless it is configured otherwise: with a serializer that loses nothing, the text
  \<open>a{color:red;}\<close> comes back behind the protected sheet.
\<close>

theorem css_round_trip_counterexample:
  "cssValue
     (sync (protecting_engine (lit ''* { box-sizing: border-box; } body {margin: 0;}'') (\<lambda>s. s))
        (applyGlobalCss
           (protecting_engine (lit ''* { box-sizing: border-box; } body {margin: 0;}'') (\<lambda>s. s))
           \<lparr>inner = lit ''<p>a</p>'', sheet = lit ''p{}'', selected = False\<rparr>
           (lit ''a{color:red;}''))
        \<lparr>tab = Css, htmlValue = [], cssValue = lit ''a{color:red;}'', status = [], rafRef = None\<rparr>)
   = lit ''* { box-sizing: border-box; } body {margin: 0;}a{color:red;}''
   \<and> lit ''* { box-sizing: border-box; } body {margin: 0;}a{color:red;}'' \<noteq> lit ''a{color:red;}''"
  by (simp add: sync_def getEditorHtml_def getEditorCss_def applyGlobalCss_def
      protecting_engine_def lit_def cu_def)

theorem css_apply_then_sync_witness:
  "getHtml stub_engine
     (setStyle stub_engine (lit ''a{color:red;}'')
        \<lparr>inner = lit ''<p>a</p>'', sheet = lit ''p{}'', selected = False\<rparr>)
     = Inr (lit ''<p>a</p>'')
   \<and> getCss stub_engine
     (setStyle stub_engine (lit ''a{color:red;}'')
        \<lparr>inner = lit ''<p>a</p>'', sheet = lit ''p{}'', selected = False\<rparr>)
     = Inr (lit ''a{color:red;}'')
   \<and> cssValue
       (sync stub_engine
          (applyGlobalCss stub_engine
             \<lparr>inner = lit ''<p>a</p>'', sheet = lit ''p{}'', selected = False\<rparr>
             (lit ''a{color:red;}''))
          \<lparr>tab = Css, htmlValue = [], cssValue = [], status = [], rafRef = None\<rparr>)
     = lit ''a{color:red;}''
   \<and> (\<lambda>s. s) (lit ''a{color:red;}'') = lit ''a{color:red;}''
   \<and> cssValue
       (sync (protecting_engine (lit ''body {margin: 0;}'') (\<lambda>s. s))
          (applyGlobalCss (protecting_engine (lit ''body {margin: 0;}'') (\<lambda>s. s))
             \<lparr>inner = lit ''<p>a</p>'', sheet = lit ''p{}'', selected = False\<rparr>
             (lit ''a{color:red;}''))
          \<lparr>tab = Css, htmlValue = [], cssValue = [], status = [], rafRef = None\<rparr>)
     = lit ''body {margin: 0;}a{color:red;}''"
proof -
  let ?d = "\<lparr>inner = lit ''<p>a</p>'', sheet = lit ''p{}'', selected = False\<rparr>"
  let ?T = "lit ''a{color:red;}''"
  let ?st = "\<lparr>tab = Css, htmlValue = [], cssValue = [], status = [], rafRef = None\<rparr>"
  have h: "getHtml stub_engine (setStyle stub_engine ?T ?d) = Inr (lit ''<p>a</p>'')"
    and c: "getCss stub_engine (setStyle stub_engine ?T ?d) = Inr ?T"
    by (simp_all add: stub_engine_def)
  have l: "(\<lambda>s. s) ?T = ?T" by simp
  have a: "lit ''body {margin: 0;}'' @ ?T = lit ''body {margin: 0;}a{color:red;}''"
    by (simp add: lit_def)
  from css_apply_then_sync [where eng = stub_engine and e = ?d and T = ?T
      and h = "lit ''<p>a</p>''" and c = ?T and st = ?st and serialize = "\<lambda>s. s"
      and protectedCss = "lit ''body {margin: 0;}''" and d = ?d and st' = ?st] h c l
  have "cssValue (sync stub_engine (applyGlobalCss stub_engine ?d ?T) ?st) = ?T"
    and "cssValue (sync (protecting_engine (lit ''body {margin: 0;}'') (\<lambda>s. s))
          (applyGlobalCss (protecting_engine (lit ''body {margin: 0;}'') (\<lambda>s. s)) ?d ?T) ?st)
       = lit ''body {margin: 0;}'' @ ?T"
    by blast+
  with h c l a show ?thesis by simp
qed


section \<open>Frame coalescing\<close>

text \<open>The first event of a frame arms the callback.\<close>

lemma scheduleSync_idle:
  assumes "rafRef (ui w) = None"
  shows "scheduleSync w =
           w\<lparr>ui := (ui w)\<lparr>rafRef := Some (Suc (rafCounter w))\<rparr>,
             rafCounter := Suc (rafCounter w),
             rafCallbacks := rafCallbacks w @ [Suc (rafCounter w)]\<rparr>"
  using assms by (simp add: scheduleSync_def truthy_def requestAnimationFrame_def Let_def)

text \<open>While it is armed, an event changes nothing but the document.\<close>

lemma scheduleSync_armed:
  assumes "rafRef (ui w) = Some (Suc k)"
  shows "scheduleSync w = w"
  using assms by (simp add: scheduleSync_def truthy_def)

lemma fire_armed:
  assumes "rafRef (ui w) = Some (Suc k)"
  shows "fire es w = w\<lparr>doc := last (doc w # es)\<rparr>"
  using assms
proof (induction es arbitrary: w)
  case Nil
  show ?case by (simp add: fire_def)
next
  case (Cons e es)
  have step: "changeEvent e w = w\<lparr>doc := e\<rparr>"
    using Cons.prems by (simp add: changeEvent_def scheduleSync_armed)
  have "fire (e # es) w = fire es (w\<lparr>doc := e\<rparr>)"
    by (simp add: fire_def step)
  also have "\<dots> = (w\<lparr>doc := e\<rparr>)\<lparr>doc := last (doc (w\<lparr>doc := e\<rparr>) # es)\<rparr>"
    using Cons.prems by (intro Cons.IH) simp
  finally show ?case by simp
qed

lemma fire_idle:
  assumes "rafRef (ui w) = None" and "es \<noteq> []"
  shows "fire es w =
           w\<lparr>ui := (ui w)\<lparr>rafRef := Some (Suc (rafCounter w))\<rparr>,
             doc := last es,
             rafCounter := Suc (rafCounter w),
             rafCallbacks := rafCallbacks w @ [Suc (rafCounter w)]\<rparr>"
proof -
  from assms(2) obtain e es' where es: "es = e # es'" by (cases es) auto
  let ?w1 = "changeEvent e w"
  have w1: "?w1 = w\<lparr>ui := (ui w)\<lparr>rafRef := Some (Suc (rafCounter w))\<rparr>,
             doc := e,
             rafCounter := Suc (rafCounter w),
             rafCallbacks := rafCallbacks w @ [Suc (rafCounter w)]\<rparr>"
    using assms(1) by (simp add: changeEvent_def scheduleSync_idle)
  then have armed: "rafRef (ui ?w1) = Some (Suc (rafCounter w))" by simp
  have "fire es w = fire es' ?w1" by (simp add: es fire_def)
  also have "\<dots> = ?w1\<lparr>doc := last (doc ?w1 # es')\<rparr>" by (rule fire_armed [OF armed])
  finally show ?thesis by (simp add: w1 es)
qed

text \<open>
  Claim C6. Let the callback not be armed and no callback be queued. After one or
  more change events without a frame in between, exactly one callback is queued;
  the frame runs that one callback, which clears \<open>rafRef\<close> and runs \<open>sync\<close> once,
  against the last document; and the state after the frame is the state after a
  frame that follows the last event alone.
\<close>

theorem change_events_coalesce:
  assumes "rafRef (ui w) = None" and "rafCallbacks w = []" and "es \<noteq> []"
  shows "length (rafCallbacks (fire es w)) = 1
     \<and> runFrame eng (fire es w) = rafCallback eng ((fire es w)\<lparr>rafCallbacks := []\<rparr>)
     \<and> ui (runFrame eng (fire es w)) = sync eng (last es) (ui w)
     \<and> rafRef (ui (runFrame eng (fire es w))) = None
     \<and> rafCallbacks (runFrame eng (fire es w)) = []
     \<and> runFrame eng (fire es w) = runFrame eng (fire [last es] w)"
proof -
  have f: "fire es w =
           w\<lparr>ui := (ui w)\<lparr>rafRef := Some (Suc (rafCounter w))\<rparr>,
             doc := last es,
             rafCounter := Suc (rafCounter w),
             rafCallbacks := [Suc (rafCounter w)]\<rparr>" if "es \<noteq> []" for es :: "'a list"
    using fire_idle [OF assms(1) that] assms(2) by simp
  have u: "(ui w)\<lparr>rafRef := None\<rparr> = ui w"
    using assms(1) by simp
  have r: "runFrame eng (fire es w) =
           w\<lparr>ui := sync eng (last es) (ui w),
             doc := last es,
             rafCounter := Suc (rafCounter w),
             rafCallbacks := []\<rparr>" if "es \<noteq> []" for es :: "'a list"
    by (simp add: f [OF that] runFrame_def rafCallback_def u)
  have n: "rafRef (sync eng e st) = rafRef st" for e st
    by (simp add: sync_def split: sum.splits)
  show ?thesis
    using assms(1,3)
    by (simp add: r n) (simp add: f rafCallback_def u)
qed


theorem change_events_coalesce_witness:
  "rafRef (ui \<lparr>ui = \<lparr>tab = Html, htmlValue = [], cssValue = [], status = [], rafRef = None\<rparr>,
              doc = \<lparr>inner = [], sheet = [], selected = False\<rparr>,
              rafCounter = 0, rafCallbacks = []\<rparr>) = None
   \<and> rafCallbacks \<lparr>ui = \<lparr>tab = Html, htmlValue = [], cssValue = [], status = [], rafRef = None\<rparr>,
              doc = \<lparr>inner = [], sheet = [], selected = False\<rparr>,
              rafCounter = 0, rafCallbacks = []\<rparr> = []
   \<and> [\<lparr>inner = lit ''a'', sheet = [], selected = False\<rparr>,
       \<lparr>inner = lit ''ab'', sheet = [], selected = False\<rparr>,
       \<lparr>inner = lit ''ab'', sheet = lit ''p{}'', selected = False\<rparr>] \<noteq> []
   \<and> rafCallbacks
        (fire [\<lparr>inner = lit ''a'', sheet = [], selected = False\<rparr>,
               \<lparr>inner = lit ''ab'', sheet = [], selected = False\<rparr>,
               \<lparr>inner = lit ''ab'', sheet = lit ''p{}'', selected = False\<rparr>]
           \<lparr>ui = \<lparr>tab = Html, htmlValue = [], cssValue = [], status = [], rafRef = None\<rparr>,
            doc = \<lparr>inner = [], sheet = [], selected = False\<rparr>,
            rafCounter = 0, rafCallbacks = []\<rparr>) = [1]
   \<and> ui (runFrame stub_engine
        (fire [\<lparr>inner = lit ''a'', sheet = [], selected = False\<rparr>,
               \<lparr>inner = lit ''ab'', sheet = [], selected = False\<rparr>,
               \<lparr>inner = lit ''ab'', sheet = lit ''p{}'', selected = False\<rparr>]
           \<lparr>ui = \<lparr>tab = Html, htmlValue = [], cssValue = [], status = [], rafRef = None\<rparr>,
            doc = \<lparr>inner = [], sheet = [], selected = False\<rparr>,
            rafCounter = 0, rafCallbacks = []\<rparr>))
      = \<lparr>tab = Html, htmlValue = lit ''ab'', cssValue = lit ''p{}'', status = [], rafRef = None\<rparr>"
proof -
  let ?w = "\<lparr>ui = \<lparr>tab = Html, htmlValue = [], cssValue = [], status = [], rafRef = None\<rparr>,
            doc = \<lparr>inner = [], sheet = [], selected = False\<rparr>,
            rafCounter = 0, rafCallbacks = []\<rparr>"
  let ?es = "[\<lparr>inner = lit ''a'', sheet = [], selected = False\<rparr>,
               \<lparr>inner = lit ''ab'', sheet = [], selected = False\<rparr>,
               \<lparr>inner = lit ''ab'', sheet = lit ''p{}'', selected = False\<rparr>]"
  have h1: "rafRef (ui ?w) = None" and h2: "rafCallbacks ?w = []" and h3: "?es \<noteq> []"
    by simp_all
  have q: "rafCallbacks (fire ?es ?w) = [1]"
    by (simp add: fire_def changeEvent_def scheduleSync_def truthy_def
        requestAnimationFrame_def Let_def)
  have s: "sync stub_engine (last ?es) (ui ?w)
      = \<lparr>tab = Html, htmlValue = lit ''ab'', cssValue = lit ''p{}'', status = [], rafRef = None\<rparr>"
    by (simp add: sync_def getEditorHtml_def getEditorCss_def stub_engine_def)
  from change_events_coalesce [OF h1 h2 h3, of stub_engine]
  have "ui (runFrame stub_engine (fire ?es ?w)) = sync stub_engine (last ?es) (ui ?w)"
    by blast
  with s h1 h2 h3 q show ?thesis by simp
qed


section \<open>Persisted settings\<close>

lemma keys_distinct:
  "LS_HEAD_KEY \<noteq> LS_THEME_KEY"
  "LS_CUSTOM_PALETTE_ENABLED_KEY \<noteq> LS_THEME_KEY"
  "LS_CUSTOM_PALETTE_ENABLED_KEY \<noteq> LS_HEAD_KEY"
  "LS_CUSTOM_PALETTE_KEY \<noteq> LS_THEME_KEY"
  "LS_CUSTOM_PALETTE_KEY \<noteq> LS_HEAD_KEY"
  "LS_CUSTOM_PALETTE_KEY \<noteq> LS_CUSTOM_PALETTE_ENABLED_KEY"
  by (simp_all add: LS_THEME_KEY_def LS_HEAD_KEY_def LS_CUSTOM_PALETTE_KEY_def
      LS_CUSTOM_PALETTE_ENABLED_KEY_def lit_def cu_def)

text \<open>What the first render puts into the cells, and what it reads.\<close>

lemma App_useState_mount:
  "App_useState parse ls None =
     (\<lparr>s_themeChoice = fst (themeChoice_init ls),
       s_headSettings = fst (headSettings_init parse ls),
       s_customEnabled = fst (customEnabled_init ls),
       s_customPalette = fst (customPalette_init parse ls)\<rparr>,
      [LS_THEME_KEY, LS_HEAD_KEY, LS_CUSTOM_PALETTE_ENABLED_KEY, LS_CUSTOM_PALETTE_KEY])"
  by (simp add: App_useState_def useState_def themeChoice_init_def headSettings_init_def
      customEnabled_init_def customPalette_init_def)

lemma App_useState_later: "App_useState parse ls (Some s) = (s, [])"
  by (simp add: App_useState_def useState_def)

lemma startup_state:
  "r_state (startup parse sys ls) = fst (App_useState parse ls None)"
  "r_reads (startup parse sys ls) = snd (App_useState parse ls None)"
  "r_thrown (startup parse sys ls) = fst (theme_apply sys (fst (App_useState parse ls None)))"
  by (simp_all add: startup_def split: prod.splits)

lemma safeJsonParse_fallback:
  "raw = None \<or> raw = Some [] \<or> (\<exists>r. raw = Some r \<and> parse r = None) \<Longrightarrow>
     safeJsonParse parse raw d = d"
  by (auto simp: safeJsonParse_def)

text \<open>The default palette has only empty strings: no call is made, nothing is thrown.\<close>

lemma applyCustomPaletteVars_default:
  "applyCustomPaletteVars default_customPalette = (None, [])"
  by (simp add: applyCustomPaletteVars_def palette_vars_def default_customPalette_def
      read_prop_def lit_def cu_def)

lemma theme_apply_default_palette:
  "s_customPalette s = default_customPalette \<Longrightarrow> fst (theme_apply sys s) = None"
  by (simp add: theme_apply_def Let_def applyCustomPaletteVars_default)

text \<open>
  Claim C9, as amended. At startup each of the four entries is read once, and no
  later render reads one. The theme is \<open>auto\<close> when no theme is stored; a stored
  theme is taken as it is. The head settings and the palette are their defaults
  when the entry is absent, empty or not parseable as JSON. The palette flag is true
  exactly when \<open>1\<close> is stored and false, its default, otherwise. Startup raises no
  error where the palette entry is absent, empty or not parseable, and none where
  the flag is not \<open>1\<close>. (An entry that parses to a value of another shape is left
  out.)
\<close>

theorem persisted_settings_initial:
  "r_reads (startup parse sys ls)
     = [LS_THEME_KEY, LS_HEAD_KEY, LS_CUSTOM_PALETTE_ENABLED_KEY, LS_CUSTOM_PALETTE_KEY]
   \<and> distinct (r_reads (startup parse sys ls))
   \<and> snd (App_useState parse ls (Some s)) = []
   \<and> (ls LS_THEME_KEY = None \<longrightarrow> s_themeChoice (r_state (startup parse sys ls)) = lit ''auto'')
   \<and> (ls LS_THEME_KEY = Some saved \<longrightarrow> s_themeChoice (r_state (startup parse sys ls)) = saved)
   \<and> (ls LS_HEAD_KEY = None \<or> ls LS_HEAD_KEY = Some []
        \<or> (\<exists>r. ls LS_HEAD_KEY = Some r \<and> parse r = None)
        \<longrightarrow> s_headSettings (r_state (startup parse sys ls)) = default_headSettings)
   \<and> (s_customEnabled (r_state (startup parse sys ls))
        \<longleftrightarrow> ls LS_CUSTOM_PALETTE_ENABLED_KEY = Some (lit ''1''))
   \<and> (ls LS_CUSTOM_PALETTE_KEY = None \<or> ls LS_CUSTOM_PALETTE_KEY = Some []
        \<or> (\<exists>r. ls LS_CUSTOM_PALETTE_KEY = Some r \<and> parse r = None)
        \<longrightarrow> s_customPalette (r_state (startup parse sys ls)) = default_customPalette
            \<and> r_thrown (startup parse sys ls) = None)
   \<and> (ls LS_CUSTOM_PALETTE_ENABLED_KEY \<noteq> Some (lit ''1'')
        \<longrightarrow> r_thrown (startup parse sys ls) = None)"
proof (intro conjI impI)
  show r: "r_reads (startup parse sys ls)
     = [LS_THEME_KEY, LS_HEAD_KEY, LS_CUSTOM_PALETTE_ENABLED_KEY, LS_CUSTOM_PALETTE_KEY]"
    by (simp add: startup_state App_useState_mount)
  show "distinct (r_reads (startup parse sys ls))"
    using keys_distinct by (simp add: r)
  show "snd (App_useState parse ls (Some s)) = []"
    by (simp add: App_useState_later)
next
  assume "ls LS_THEME_KEY = None"
  then show "s_themeChoice (r_state (startup parse sys ls)) = lit ''auto''"
    by (simp add: startup_state App_useState_mount themeChoice_init_def)
next
  assume "ls LS_THEME_KEY = Some saved"
  then show "s_themeChoice (r_state (startup parse sys ls)) = saved"
    by (simp add: startup_state App_useState_mount themeChoice_init_def)
next
  assume "ls LS_HEAD_KEY = None \<or> ls LS_HEAD_KEY = Some []
        \<or> (\<exists>r. ls LS_HEAD_KEY = Some r \<and> parse r = None)"
  then show "s_headSettings (r_state (startup parse sys ls)) = default_headSettings"
    by (simp add: startup_state App_useState_mount headSettings_init_def
        safeJsonParse_fallback)
next
  show "s_customEnabled (r_state (startup parse sys ls))
        \<longleftrightarrow> ls LS_CUSTOM_PALETTE_ENABLED_KEY = Some (lit ''1'')"
    by (auto simp: startup_state App_useState_mount customEnabled_init_def lit_def
        split: option.splits)
next
  assume "ls LS_CUSTOM_PALETTE_KEY = None \<or> ls LS_CUSTOM_PALETTE_KEY = Some []
        \<or> (\<exists>r. ls LS_CUSTOM_PALETTE_KEY = Some r \<and> parse r = None)"
  then show p: "s_customPalette (r_state (startup parse sys ls)) = default_customPalette"
    by (simp add: startup_state App_useState_mount customPalette_init_def
        safeJsonParse_fallback)
  then show "r_thrown (startup parse sys ls) = None"
    by (simp add: startup_state theme_apply_default_palette)
next
  assume "ls LS_CUSTOM_PALETTE_ENABLED_KEY \<noteq> Some (lit ''1'')"
  then have "\<not> s_customEnabled (fst (App_useState parse ls None))"
    by (auto simp: App_useState_mount customEnabled_init_def split: option.splits)
  then show "r_thrown (startup parse sys ls) = None"
    by (simp add: startup_state theme_apply_def Let_def)
qed

lemma stored_some_eval:
  "stored_some LS_THEME_KEY = Some (lit ''dark'')"
  "stored_some LS_HEAD_KEY = Some (lit ''{oops'')"
  "stored_some LS_CUSTOM_PALETTE_ENABLED_KEY = Some (lit ''1'')"
  "stored_some LS_CUSTOM_PALETTE_KEY = Some (lit ''{oops'')"
  by (simp_all add: stored_some_def keys_distinct)

lemma stored_bad_eval:
  "stored_bad LS_THEME_KEY = Some (lit ''purple'')"
  "stored_bad LS_HEAD_KEY = None"
  "stored_bad LS_CUSTOM_PALETTE_ENABLED_KEY = Some (lit ''1'')"
  "stored_bad LS_CUSTOM_PALETTE_KEY = Some (lit ''null'')"
  using keys_distinct by (simp_all add: stored_bad_def)

lemma parse_stub_eval:
  "parse_stub (lit ''{oops'') = None" "parse_stub (lit ''null'') = Some JNull"
  "lit ''null'' \<noteq> []"
  by (simp_all add: parse_stub_def lit_def cu_def)

theorem persisted_settings_initial_witness:
  "stored_none LS_THEME_KEY = None
   \<and> stored_none LS_HEAD_KEY = None
   \<and> stored_none LS_CUSTOM_PALETTE_KEY = None
   \<and> r_state (startup parse_stub (lit ''light'') stored_none)
       = \<lparr>s_themeChoice = lit ''auto'', s_headSettings = default_headSettings,
          s_customEnabled = False, s_customPalette = default_customPalette\<rparr>
   \<and> r_thrown (startup parse_stub (lit ''light'') stored_none) = None
   \<and> stored_some LS_THEME_KEY = Some (lit ''dark'')
   \<and> stored_some LS_HEAD_KEY = Some (lit ''{oops'') \<and> parse_stub (lit ''{oops'') = None
   \<and> stored_some LS_CUSTOM_PALETTE_ENABLED_KEY = Some (lit ''1'')
   \<and> stored_some LS_CUSTOM_PALETTE_KEY = Some (lit ''{oops'')
   \<and> r_state (startup parse_stub (lit ''light'') stored_some)
       = \<lparr>s_themeChoice = lit ''dark'', s_headSettings = default_headSettings,
          s_customEnabled = True, s_customPalette = default_customPalette\<rparr>
   \<and> r_thrown (startup parse_stub (lit ''light'') stored_some) = None
   \<and> r_reads (startup parse_stub (lit ''light'') stored_some)
       = [LS_THEME_KEY, LS_HEAD_KEY, LS_CUSTOM_PALETTE_ENABLED_KEY, LS_CUSTOM_PALETTE_KEY]"
proof -
  have n: "stored_none k = None" for k
    by (simp add: stored_none_def)
  note one = persisted_settings_initial [where ls = stored_none and parse = parse_stub
      and sys = "lit ''light''"]
  note two = persisted_settings_initial [where ls = stored_some and parse = parse_stub
      and sys = "lit ''light''" and saved = "lit ''dark''"]
  have a: "r_state (startup parse_stub (lit ''light'') stored_none)
       = \<lparr>s_themeChoice = lit ''auto'', s_headSettings = default_headSettings,
          s_customEnabled = False, s_customPalette = default_customPalette\<rparr>"
    and a': "r_thrown (startup parse_stub (lit ''light'') stored_none) = None"
    using one by (simp_all add: n)
  have b: "r_state (startup parse_stub (lit ''light'') stored_some)
       = \<lparr>s_themeChoice = lit ''dark'', s_headSettings = default_headSettings,
          s_customEnabled = True, s_customPalette = default_customPalette\<rparr>"
    and b': "r_thrown (startup parse_stub (lit ''light'') stored_some) = None"
    and b'': "r_reads (startup parse_stub (lit ''light'') stored_some)
       = [LS_THEME_KEY, LS_HEAD_KEY, LS_CUSTOM_PALETTE_ENABLED_KEY, LS_CUSTOM_PALETTE_KEY]"
    using two by (simp_all add: stored_some_eval parse_stub_eval)
  from n a a' b b' b'' stored_some_eval parse_stub_eval show ?thesis by simp
qed

text \<open>
  Claim C9 as stated fails for the theme: the stored value \<open>purple\<close> is none of
  the four theme choices, and it becomes the theme; \<open>auto\<close> is not taken. It also
  fails for the stored palette \<open>null\<close> with the flag \<open>1\<close>: the value parses, so
  it becomes the palette, and the theme effect throws on reading its \<open>bg\<close>.
\<close>

theorem persisted_settings_counterexample:
  "stored_bad LS_THEME_KEY = Some (lit ''purple'')
   \<and> s_themeChoice (r_state (startup parse_stub (lit ''light'') stored_bad)) = lit ''purple''
   \<and> lit ''purple'' \<notin> theme_choices
   \<and> lit ''purple'' \<noteq> lit ''auto''
   \<and> stored_bad LS_CUSTOM_PALETTE_KEY = Some (lit ''null'')
   \<and> s_customPalette (r_state (startup parse_stub (lit ''light'') stored_bad)) = JNull
   \<and> JNull \<noteq> default_customPalette
   \<and> r_thrown (startup parse_stub (lit ''light'') stored_bad) = Some (null_read (lit ''bg''))"
  by (simp add: startup_state App_useState_mount themeChoice_init_def customPalette_init_def
      customEnabled_init_def safeJsonParse_def stored_bad_eval parse_stub_eval
      theme_choices_def default_customPalette_def theme_apply_def Let_def
      applyCustomPaletteVars_def palette_vars_def read_prop_def)
     (simp add: lit_def cu_def)

end
